theory Spec2Isabelle
  imports Complex_Main "HOL-Library.Word" "HOL-Library.Log_Nat"
begin

section \<open>Common data\<close>

text \<open>
  JavaScript strings are sequences of UTF-16 code units and \<open>.length\<close> counts code units,
  so a user-supplied text is a list of 16-bit words.  Identifiers that the program builds
  itself (\<open>chat_...\<close>, \<open>feedback_...\<close>) are ASCII and are kept as \<open>string\<close>.
  Timestamps are milliseconds since the epoch (the value behind an ISO date string).
\<close>

type_synonym js_string = "16 word list"
type_synonym timestamp = nat

text \<open>
  \<open>bot/utils/config\<close> is required by every manager but is not among the sources; the values
  the code reads from it are the fields of this record and stay parameters of every
  operation.
\<close>

record config =
  maxChatsPerUser :: int
  maxChatNameLength :: int
  defaultModel :: string
  qwen_maxRetries :: int

text \<open>
  The managers report expected failures as \<open>{success: false, error: message}\<close>.  Each
  message the modelled code can produce is one constructor:
  \<^item> \<open>LimitReached n\<close>: the chat limit message, carrying \<open>config.chat.maxChatsPerUser\<close>;
  \<^item> \<open>NameTooLong n\<close>: the name length message, carrying \<open>config.chat.maxChatNameLength\<close>;
  \<^item> \<open>ChatNotFound\<close>: the "chat not found" message of select, rename and delete;
  \<^item> \<open>NoActiveChat\<close>, \<open>ActiveChatNotFound\<close>: the two messages of \<open>getActiveChat\<close>;
  \<^item> \<open>ConstraintFailed\<close>: the message of an SQLite constraint violation caught by the
    database manager.
\<close>

datatype error =
    LimitReached int
  | NameTooLong int
  | ChatNotFound
  | NoActiveChat
  | ActiveChatNotFound
  | ConstraintFailed

text \<open>The error taxonomy of the specification, and the class of each message.\<close>

datatype error_kind = ValidationError | NotFound | LimitExceeded | InfrastructureError

fun kind_of :: "error \<Rightarrow> error_kind" where
  "kind_of (LimitReached n) = LimitExceeded"
| "kind_of (NameTooLong n) = ValidationError"
| "kind_of ChatNotFound = NotFound"
| "kind_of NoActiveChat = NotFound"
| "kind_of ActiveChatNotFound = NotFound"
| "kind_of ConstraintFailed = ValidationError"

subsection \<open>Decimal rendering of a number\<close>

definition digit_char :: "nat \<Rightarrow> char" where
  "digit_char d = ''0123456789'' ! (d mod 10)"

fun dec :: "nat \<Rightarrow> string" where
  "dec n = (if n < 10 then [digit_char n] else dec (n div 10) @ [digit_char (n mod 10)])"

declare dec.simps [simp del]

subsection \<open>Array helpers: \<open>find\<close>, \<open>findIndex\<close> followed by \<open>splice\<close>, in-place update\<close>

text \<open>\<open>xs.splice(xs.findIndex(p), 1)\<close> when the index is not \<open>-1\<close>: the first match goes.\<close>

fun remove_first :: "('a \<Rightarrow> bool) \<Rightarrow> 'a list \<Rightarrow> 'a list" where
  "remove_first p [] = []"
| "remove_first p (x # xs) = (if p x then xs else x # remove_first p xs)"

text \<open>
  \<open>const c = xs.find(p); c.field = v\<close>: the objects of the array are shared references,
  so the assignment changes the first match inside the array.
\<close>

fun update_first :: "('a \<Rightarrow> bool) \<Rightarrow> ('a \<Rightarrow> 'a) \<Rightarrow> 'a list \<Rightarrow> 'a list" where
  "update_first p f [] = []"
| "update_first p f (x # xs) = (if p x then f x # xs else x # update_first p f xs)"

section \<open>The flat-file chat store (\<open>ChatManager\<close>, JSON paths)\<close>

record chat =
  chat_id :: string
  name :: js_string
  createdAt :: timestamp
  lastUsed :: timestamp
  messageCount :: nat

record userData =
  chats :: "chat list"
  activeChatId :: "string option"

text \<open>\<open>this.userChats\<close>: a \<open>Map\<close> from user id to the user's data.\<close>

type_synonym userChats = "int \<rightharpoonup> userData"

text \<open>
  \<open>saveData\<close> writes the maps to disk after a mutation and only logs a failure; it never
  changes the in-memory maps, which are the state modelled here.
\<close>

definition getUserData :: "userChats \<Rightarrow> int \<Rightarrow> userChats \<times> userData" where
  "getUserData m userId =
     (case m userId of
        None \<Rightarrow> (m(userId \<mapsto> \<lparr>chats = [], activeChatId = None\<rparr>),
                 \<lparr>chats = [], activeChatId = None\<rparr>)
      | Some d \<Rightarrow> (m, d))"

text \<open>
  The id of a new chat is \<open>chat_<Date.now()>_<random base-36 text>\<close>; the clock readings
  (\<open>tid\<close> for the id, \<open>tc\<close> and \<open>tu\<close> for the two dates) and the random text \<open>rnd\<close> come
  from the environment.
\<close>

definition new_chat_id :: "timestamp \<Rightarrow> string \<Rightarrow> string" where
  "new_chat_id tid rnd = ''chat_'' @ dec tid @ ''_'' @ rnd"

definition createChatJSON ::
  "config \<Rightarrow> userChats \<Rightarrow> int \<Rightarrow> js_string \<Rightarrow> timestamp \<Rightarrow> string \<Rightarrow> timestamp \<Rightarrow> timestamp
     \<Rightarrow> userChats \<times> (error + chat)" where
  "createChatJSON cfg m userId chatName tid rnd tc tu =
     (let (m1, ud) = getUserData m userId in
      if int (length (chats ud)) \<ge> maxChatsPerUser cfg
        then (m1, Inl (LimitReached (maxChatsPerUser cfg)))
      else if int (length chatName) > maxChatNameLength cfg
        then (m1, Inl (NameTooLong (maxChatNameLength cfg)))
      else
        let newChat = \<lparr>chat_id = new_chat_id tid rnd, name = chatName, createdAt = tc,
                         lastUsed = tu, messageCount = 0\<rparr>;
            cs = chats ud @ [newChat];
            act = (if length cs = 1 then Some (chat_id newChat) else activeChatId ud)
        in (m1(userId \<mapsto> \<lparr>chats = cs, activeChatId = act\<rparr>), Inr newChat))"

definition getChatsJSON :: "userChats \<Rightarrow> int \<Rightarrow> userChats \<times> (chat list \<times> string option)" where
  "getChatsJSON m userId =
     (let (m1, ud) = getUserData m userId in (m1, (chats ud, activeChatId ud)))"

definition selectChatJSON ::
  "userChats \<Rightarrow> int \<Rightarrow> string \<Rightarrow> timestamp \<Rightarrow> userChats \<times> (error + chat)" where
  "selectChatJSON m userId chatId now =
     (let (m1, ud) = getUserData m userId in
      case find (\<lambda>c. chat_id c = chatId) (chats ud) of
        None \<Rightarrow> (m1, Inl ChatNotFound)
      | Some c \<Rightarrow>
          (m1(userId \<mapsto>
             \<lparr>chats = update_first (\<lambda>c. chat_id c = chatId) (\<lambda>c. c\<lparr>lastUsed := now\<rparr>) (chats ud),
              activeChatId = Some chatId\<rparr>),
           Inr (c\<lparr>lastUsed := now\<rparr>)))"

definition renameChat ::
  "config \<Rightarrow> userChats \<Rightarrow> int \<Rightarrow> string \<Rightarrow> js_string \<Rightarrow> userChats \<times> (error + chat)" where
  "renameChat cfg m userId chatId newName =
     (let (m1, ud) = getUserData m userId in
      case find (\<lambda>c. chat_id c = chatId) (chats ud) of
        None \<Rightarrow> (m1, Inl ChatNotFound)
      | Some c \<Rightarrow>
          if int (length newName) > maxChatNameLength cfg
            then (m1, Inl (NameTooLong (maxChatNameLength cfg)))
          else
            (m1(userId \<mapsto>
               ud\<lparr>chats := update_first (\<lambda>c. chat_id c = chatId) (\<lambda>c. c\<lparr>name := newName\<rparr>) (chats ud)\<rparr>),
             Inr (c\<lparr>name := newName\<rparr>)))"

text \<open>The replacement for a removed active chat: \<open>chats.length > 0 ? chats[0].id : null\<close>.\<close>

definition first_id :: "chat list \<Rightarrow> string option" where
  "first_id cs = (case cs of [] \<Rightarrow> None | c # _ \<Rightarrow> Some (chat_id c))"

definition deleteChat :: "userChats \<Rightarrow> int \<Rightarrow> string \<Rightarrow> userChats \<times> (error + chat)" where
  "deleteChat m userId chatId =
     (let (m1, ud) = getUserData m userId in
      case find (\<lambda>c. chat_id c = chatId) (chats ud) of
        None \<Rightarrow> (m1, Inl ChatNotFound)
      | Some deletedChat \<Rightarrow>
          let cs = remove_first (\<lambda>c. chat_id c = chatId) (chats ud);
              act = (if activeChatId ud = Some chatId then first_id cs else activeChatId ud)
          in (m1(userId \<mapsto> \<lparr>chats = cs, activeChatId = act\<rparr>), Inr deletedChat))"

text \<open>\<open>!userData.activeChatId\<close> holds for \<open>null\<close> and for the empty string.\<close>

definition falsy :: "string option \<Rightarrow> bool" where
  "falsy a = (a = None \<or> a = Some [])"

definition getActiveChatJSON :: "userChats \<Rightarrow> int \<Rightarrow> userChats \<times> (error + chat)" where
  "getActiveChatJSON m userId =
     (let (m1, ud) = getUserData m userId in
      if falsy (activeChatId ud) then (m1, Inl NoActiveChat)
      else case find (\<lambda>c. Some (chat_id c) = activeChatId ud) (chats ud) of
             None \<Rightarrow> (m1, Inl ActiveChatNotFound)
           | Some c \<Rightarrow> (m1, Inr c))"

definition updateChatStats :: "userChats \<Rightarrow> int \<Rightarrow> string \<Rightarrow> timestamp \<Rightarrow> userChats" where
  "updateChatStats m userId chatId now =
     (let (m1, ud) = getUserData m userId in
      m1(userId \<mapsto>
        ud\<lparr>chats := update_first (\<lambda>c. chat_id c = chatId)
              (\<lambda>c. c\<lparr>lastUsed := now, messageCount := messageCount c + 1\<rparr>) (chats ud)\<rparr>))"

subsection \<open>The periodic sweep (\<open>startAutoCleanup\<close>, one firing of the timer)\<close>

text \<open>
  A chat is old when \<open>(now - lastUsed) / 86400000 > 30\<close>.  The difference is an integer
  number of milliseconds and \<open>30 * 86400000\<close> divides exactly, so the comparison of the
  quotients is the comparison of the integers.
\<close>

definition is_old :: "timestamp \<Rightarrow> chat \<Rightarrow> bool" where
  "is_old now c = (int now - int (lastUsed c) > 30 * 86400000)"

text \<open>The inner loop: for each old chat, the first chat with its id is spliced out.\<close>

fun remove_old :: "chat list \<Rightarrow> chat list \<Rightarrow> chat list" where
  "remove_old [] cs = cs"
| "remove_old (oldChat # rest) cs =
     remove_old rest (remove_first (\<lambda>c. chat_id c = chat_id oldChat) cs)"

definition cleanupUser :: "timestamp \<Rightarrow> userData \<Rightarrow> userData" where
  "cleanupUser now ud =
     (let oldChats = filter (is_old now) (chats ud);
          cs = remove_old oldChats (chats ud);
          act = (if \<not> falsy (activeChatId ud)
                    \<and> find (\<lambda>c. Some (chat_id c) = activeChatId ud) cs = None
                 then first_id cs else activeChatId ud)
      in \<lparr>chats = cs, activeChatId = act\<rparr>)"

definition autoCleanup :: "userChats \<Rightarrow> timestamp \<Rightarrow> userChats" where
  "autoCleanup m now = (\<lambda>userId. map_option (cleanupUser now) (m userId))"

section \<open>The structured store (\<open>DatabaseManager\<close>)\<close>

text \<open>
  The tables are lists of rows in insertion (rowid) order.  Only the columns that the
  modelled operations read or write are kept.  \<open>users.id\<close> is \<open>INTEGER PRIMARY KEY\<close>, so a
  new user gets the largest id plus one; \<open>chats.id\<close> and \<open>feedback.id\<close> are
  \<open>AUTOINCREMENT\<close>, so the table remembers the largest id it ever gave
  (\<open>chat_seq\<close>, \<open>feedback_seq\<close>).  \<open>CURRENT_TIMESTAMP\<close> is the parameter \<open>now\<close>.
  A statement that violates a \<open>CHECK\<close> constraint throws; the manager catches the
  exception and returns a failure, and the table is unchanged.  The callers modelled
  here pass the id of a row of \<open>users\<close> and non-null texts, so the foreign keys and the
  \<open>NOT NULL\<close> constraints hold and are not modelled.
\<close>

record user_row =
  user_id :: int
  telegram_id :: int

record chat_row =
  row_id :: int
  owner_id :: int
  row_name :: js_string
  model :: string
  is_active :: bool
  message_count :: nat
  created_at :: timestamp
  updated_at :: timestamp

record feedback_row =
  fb_row_id :: int
  fb_user_id :: int
  comment_id :: string
  fb_rating :: "int option"
  feedback_text :: "js_string option"
  feedback_type :: string
  fb_context :: string
  fb_created_at :: timestamp

record database =
  users :: "user_row list"
  chat_rows :: "chat_row list"
  chat_seq :: int
  feedback_rows :: "feedback_row list"
  feedback_seq :: int

definition next_user_id :: "user_row list \<Rightarrow> int" where
  "next_user_id us = (if us = [] then 1 else Max (set (map user_id us)) + 1)"

definition getUserOrCreate :: "database \<Rightarrow> int \<Rightarrow> database \<times> user_row" where
  "getUserOrCreate d telegramId =
     (case find (\<lambda>u. telegram_id u = telegramId) (users d) of
        Some u \<Rightarrow> (d, u)
      | None \<Rightarrow>
          let u = \<lparr>user_id = next_user_id (users d), telegram_id = telegramId\<rparr>
          in (d\<lparr>users := users d @ [u]\<rparr>, u))"

text \<open>
  \<open>UPDATE chats SET is_active = 0 WHERE user_id = ?\<close>, then the \<open>INSERT\<close> of the new
  row with \<open>is_active = 1\<close>, then the row is read back.
\<close>

definition deactivate_all :: "int \<Rightarrow> chat_row list \<Rightarrow> chat_row list" where
  "deactivate_all userId rows =
     map (\<lambda>r. if owner_id r = userId then r\<lparr>is_active := False\<rparr> else r) rows"

definition db_createChat ::
  "database \<Rightarrow> int \<Rightarrow> js_string \<Rightarrow> string \<Rightarrow> timestamp \<Rightarrow> database \<times> (error + chat_row)" where
  "db_createChat d userId nm mdl now =
     (let rows = deactivate_all userId (chat_rows d);
          r = \<lparr>row_id = chat_seq d + 1, owner_id = userId, row_name = nm, model = mdl,
               is_active = True, message_count = 0, created_at = now, updated_at = now\<rparr>
      in (d\<lparr>chat_rows := rows @ [r], chat_seq := chat_seq d + 1\<rparr>, Inr r))"

text \<open>
  \<open>ORDER BY updated_at DESC\<close>.  SQL leaves the order of rows with equal keys open; the
  model keeps them in table order (a stable sort).
\<close>

definition order_by_updated_desc :: "chat_row list \<Rightarrow> chat_row list" where
  "order_by_updated_desc rows = sort_key (\<lambda>r. - int (updated_at r)) rows"

definition getUserChats :: "database \<Rightarrow> int \<Rightarrow> chat_row list" where
  "getUserChats d userId =
     order_by_updated_desc (filter (\<lambda>r. owner_id r = userId) (chat_rows d))"

definition db_getActiveChat :: "database \<Rightarrow> int \<Rightarrow> error + chat_row" where
  "db_getActiveChat d userId =
     (case order_by_updated_desc
             (filter (\<lambda>r. owner_id r = userId \<and> is_active r) (chat_rows d)) of
        [] \<Rightarrow> Inl ActiveChatNotFound
      | r # _ \<Rightarrow> Inr r)"

text \<open>
  The \<open>feedback\<close> table: \<open>rating INTEGER CHECK (rating >= 1 AND rating <= 5)\<close> (a \<open>NULL\<close>
  rating passes a \<open>CHECK\<close>) and
  \<open>feedback_type ... CHECK (feedback_type IN ('comment_rating', 'improvement_feedback'))\<close>.
\<close>

definition feedback_checks :: "int option \<Rightarrow> string \<Rightarrow> bool" where
  "feedback_checks rating feedbackType =
     ((case rating of None \<Rightarrow> True | Some r \<Rightarrow> 1 \<le> r \<and> r \<le> 5)
      \<and> (feedbackType = ''comment_rating'' \<or> feedbackType = ''improvement_feedback''))"

definition saveFeedback ::
  "database \<Rightarrow> int \<Rightarrow> string \<Rightarrow> int option \<Rightarrow> js_string option \<Rightarrow> string \<Rightarrow> string \<Rightarrow> timestamp
     \<Rightarrow> database \<times> (error + int)" where
  "saveFeedback d userId commentId rating feedbackText feedbackType ctx now =
     (if feedback_checks rating feedbackType then
        (d\<lparr>feedback_rows := feedback_rows d @
              [\<lparr>fb_row_id = feedback_seq d + 1, fb_user_id = userId, comment_id = commentId,
                fb_rating = rating, feedback_text = feedbackText, feedback_type = feedbackType,
                fb_context = ctx, fb_created_at = now\<rparr>],
            feedback_seq := feedback_seq d + 1\<rparr>,
         Inr (feedback_seq d + 1))
      else (d, Inl ConstraintFailed))"

section \<open>\<open>ChatManager\<close>: the two backends behind one object\<close>

record chatManager =
  userChats :: userChats
  userSettings :: "int \<rightharpoonup> string"
  db :: database
  useDatabase :: bool

text \<open>What the environment supplies to one call: clock readings and the random text.\<close>

record env =
  date_now :: timestamp
  random_text :: string
  date_created :: timestamp
  date_used :: timestamp
  current_timestamp :: timestamp

text \<open>A chat as returned to the caller: an object of the JSON store or a row.\<close>

datatype chat_obj = JsonChat chat | DbChat chat_row

datatype chat_ref = JsonId string | DbId int

definition getUserModel :: "config \<Rightarrow> chatManager \<Rightarrow> int \<Rightarrow> chatManager \<times> string" where
  "getUserModel cfg cm userId =
     (case userSettings cm userId of
        None \<Rightarrow> (cm\<lparr>userSettings := (userSettings cm)(userId \<mapsto> defaultModel cfg)\<rparr>,
                 defaultModel cfg)
      | Some mdl \<Rightarrow> (cm, mdl))"

definition createChatDB ::
  "config \<Rightarrow> chatManager \<Rightarrow> int \<Rightarrow> js_string \<Rightarrow> timestamp \<Rightarrow> chatManager \<times> (error + chat_row)" where
  "createChatDB cfg cm userId chatName now =
     (let (d1, user) = getUserOrCreate (db cm) userId;
          cm1 = cm\<lparr>db := d1\<rparr>
      in if int (length (getUserChats d1 (user_id user))) \<ge> maxChatsPerUser cfg
           then (cm1, Inl (LimitReached (maxChatsPerUser cfg)))
         else if int (length chatName) > maxChatNameLength cfg
           then (cm1, Inl (NameTooLong (maxChatNameLength cfg)))
         else
           let (cm2, mdl) = getUserModel cfg cm1 userId;
               (d2, res) = db_createChat (db cm2) (user_id user) chatName mdl now
           in (cm2\<lparr>db := d2\<rparr>, res))"

definition lift_json ::
  "chatManager \<Rightarrow> userChats \<times> (error + chat) \<Rightarrow> chatManager \<times> (error + chat_obj)" where
  "lift_json cm r = (cm\<lparr>userChats := fst r\<rparr>, map_sum (\<lambda>e. e) JsonChat (snd r))"

definition lift_db ::
  "chatManager \<times> (error + chat_row) \<Rightarrow> chatManager \<times> (error + chat_obj)" where
  "lift_db r = (fst r, map_sum (\<lambda>e. e) DbChat (snd r))"

definition ChatManager_createChat ::
  "config \<Rightarrow> env \<Rightarrow> chatManager \<Rightarrow> int \<Rightarrow> js_string \<Rightarrow> chatManager \<times> (error + chat_obj)" where
  "ChatManager_createChat cfg e cm userId chatName =
     (if useDatabase cm then lift_db (createChatDB cfg cm userId chatName (current_timestamp e))
      else lift_json cm (createChatJSON cfg (userChats cm) userId chatName
                           (date_now e) (random_text e) (date_created e) (date_used e)))"

definition getChatsDB :: "chatManager \<Rightarrow> int \<Rightarrow> chatManager \<times> (chat_row list \<times> int option)" where
  "getChatsDB cm userId =
     (let (d1, user) = getUserOrCreate (db cm) userId;
          cs = getUserChats d1 (user_id user);
          act = (case db_getActiveChat d1 (user_id user) of
                   Inr r \<Rightarrow> Some (row_id r) | Inl _ \<Rightarrow> None)
      in (cm\<lparr>db := d1\<rparr>, (cs, act)))"

definition ChatManager_getChats ::
  "chatManager \<Rightarrow> int \<Rightarrow> chatManager \<times> (chat_obj list \<times> chat_ref option)" where
  "ChatManager_getChats cm userId =
     (if useDatabase cm then
        (let (cm1, (cs, act)) = getChatsDB cm userId
         in (cm1, (map DbChat cs, map_option DbId act)))
      else
        (let (m1, (cs, act)) = getChatsJSON (userChats cm) userId
         in (cm\<lparr>userChats := m1\<rparr>, (map JsonChat cs, map_option JsonId act))))"

text \<open>
  \<open>selectChatDB\<close> returns the row as it was read before the two updates.
\<close>

definition selectChatDB ::
  "chatManager \<Rightarrow> int \<Rightarrow> int \<Rightarrow> timestamp \<Rightarrow> chatManager \<times> (error + chat_row)" where
  "selectChatDB cm userId chatId now =
     (let (d1, user) = getUserOrCreate (db cm) userId in
      case find (\<lambda>c. row_id c = chatId) (getUserChats d1 (user_id user)) of
        None \<Rightarrow> (cm\<lparr>db := d1\<rparr>, Inl ChatNotFound)
      | Some c \<Rightarrow>
          let rows = map (\<lambda>r. if row_id r = chatId \<and> owner_id r = user_id user
                              then r\<lparr>is_active := True, updated_at := now\<rparr> else r)
                         (deactivate_all (user_id user) (chat_rows d1))
          in (cm\<lparr>db := d1\<lparr>chat_rows := rows\<rparr>\<rparr>, Inr c))"



text \<open>
  \<open>renameChat\<close> and \<open>deleteChat\<close> have no database path: whatever \<open>useDatabase\<close> says,
  they read and write \<open>this.userChats\<close>.  The caller passes the id it took from the
  listing, a string of the JSON store or a number of the \<open>chats\<close> table; the lookup is
  \<open>c.id === chatId\<close> against the string ids of the JSON store, which a number never
  satisfies.
\<close>

definition ChatManager_renameChat ::
  "config \<Rightarrow> chatManager \<Rightarrow> int \<Rightarrow> chat_ref \<Rightarrow> js_string \<Rightarrow> chatManager \<times> (error + chat_obj)" where
  "ChatManager_renameChat cfg cm userId chatId newName =
     (case chatId of
        JsonId s \<Rightarrow> lift_json cm (renameChat cfg (userChats cm) userId s newName)
      | DbId n \<Rightarrow> lift_json cm (fst (getUserData (userChats cm) userId), Inl ChatNotFound))"

definition ChatManager_deleteChat ::
  "chatManager \<Rightarrow> int \<Rightarrow> chat_ref \<Rightarrow> chatManager \<times> (error + chat_obj)" where
  "ChatManager_deleteChat cm userId chatId =
     (case chatId of
        JsonId s \<Rightarrow> lift_json cm (deleteChat (userChats cm) userId s)
      | DbId n \<Rightarrow> lift_json cm (fst (getUserData (userChats cm) userId), Inl ChatNotFound))"

section \<open>\<open>LearningManager\<close>: feedback and its statistics\<close>

text \<open>
  A feedback object carries \<open>type: 'comment_rating'\<close> with a \<open>rating\<close>, or
  \<open>type: 'improvement_feedback'\<close> with a \<open>feedback\<close> text.  The generation context is an
  opaque value, kept as its JSON text.
\<close>

datatype feedback_body = CommentRating int | ImprovementFeedback js_string

record feedback =
  feedback_id :: string
  commentId :: string
  body :: feedback_body
  gen_context :: string
  timestamp :: timestamp

type_synonym feedbackCache = "int \<rightharpoonup> feedback list"

definition new_feedback_id :: "timestamp \<Rightarrow> string \<Rightarrow> string" where
  "new_feedback_id tid rnd = ''feedback_'' @ dec tid @ ''_'' @ rnd"

definition push_feedback :: "feedbackCache \<Rightarrow> int \<Rightarrow> feedback \<Rightarrow> feedbackCache" where
  "push_feedback m userId fb =
     m(userId \<mapsto> (case m userId of None \<Rightarrow> [] | Some fs \<Rightarrow> fs) @ [fb])"

definition saveCommentRatingJSON ::
  "feedbackCache \<Rightarrow> int \<Rightarrow> string \<Rightarrow> int \<Rightarrow> string \<Rightarrow> timestamp \<Rightarrow> string \<Rightarrow> timestamp
     \<Rightarrow> feedbackCache \<times> (error + feedback)" where
  "saveCommentRatingJSON m userId cmtId rating ctx tid rnd ts =
     (let fb = \<lparr>feedback_id = new_feedback_id tid rnd, commentId = cmtId,
                 body = CommentRating rating, gen_context = ctx, timestamp = ts\<rparr>
      in (push_feedback m userId fb, Inr fb))"


record learningManager =
  feedbackCache :: feedbackCache
  learning_db :: database
  learning_useDatabase :: bool

definition saveCommentRatingDB ::
  "learningManager \<Rightarrow> int \<Rightarrow> string \<Rightarrow> int \<Rightarrow> string \<Rightarrow> timestamp
     \<Rightarrow> learningManager \<times> (error + int)" where
  "saveCommentRatingDB lm userId cmtId rating ctx now =
     (let (d1, user) = getUserOrCreate (learning_db lm) userId;
          (d2, res) = saveFeedback d1 (user_id user) cmtId (Some rating) None
                        ''comment_rating'' ctx now
      in (lm\<lparr>learning_db := d2\<rparr>, res))"

text \<open>What \<open>saveCommentRating\<close> hands back: the stored object, or the new row id.\<close>

datatype saved = SavedObject feedback | SavedRow int

definition saveCommentRating ::
  "env \<Rightarrow> learningManager \<Rightarrow> int \<Rightarrow> string \<Rightarrow> int \<Rightarrow> string
     \<Rightarrow> learningManager \<times> (error + saved)" where
  "saveCommentRating e lm userId cmtId rating ctx =
     (if learning_useDatabase lm then
        (let (lm1, res) = saveCommentRatingDB lm userId cmtId rating ctx (current_timestamp e)
         in (lm1, map_sum (\<lambda>x. x) SavedRow res))
      else
        (let (m1, res) = saveCommentRatingJSON (feedbackCache lm) userId cmtId rating ctx
                           (date_now e) (random_text e) (date_used e)
         in (lm\<lparr>feedbackCache := m1\<rparr>, map_sum (\<lambda>x. x) SavedObject res)))"

subsection \<open>Numbers: the quotient of two integers and \<open>toFixed(1)\<close>\<close>









subsection \<open>\<open>getUserFeedbackStats\<close>\<close>










section \<open>\<open>QwenApi.generateComments\<close>: the retry loop\<close>

text \<open>
  \<open>Utils.validateText\<close>: the text must be a non-empty string that is not blank;
  \<open>trim\<close> removes the white space and line terminators of ECMAScript at both ends.
\<close>

definition js_space :: "16 word \<Rightarrow> bool" where
  "js_space c =
     (c \<in> {0x0009, 0x000A, 0x000B, 0x000C, 0x000D, 0x0020, 0x00A0, 0x1680, 0x2028, 0x2029,
            0x202F, 0x205F, 0x3000, 0xFEFF}
      \<or> (0x2000 \<le> c \<and> c \<le> 0x200A))"

definition trim :: "js_string \<Rightarrow> js_string" where
  "trim s = rev (dropWhile js_space (rev (dropWhile js_space s)))"

datatype text_error = NotAString | BlankText | TextTooLong

definition validateText :: "js_string \<Rightarrow> nat option \<Rightarrow> text_error + js_string" where
  "validateText text maxLength =
     (if text = [] then Inl NotAString
      else if length (trim text) = 0 then Inl BlankText
      else if (case maxLength of None \<Rightarrow> False | Some n \<Rightarrow> n \<noteq> 0 \<and> length text > n)
        then Inl TextTooLong
      else Inr (trim text))"

text \<open>
  What the \<open>catch\<close> receives: an error with a \<open>response\<close> (the status and \<open>data.error\<close>),
  an error with only a \<open>request\<close>, or any other error with its \<open>message\<close>.
  \<open>Utils.handleApiError\<close> turns it into \<open>{success: false, error, code}\<close>; the message is
  fixed by the code, followed by the server's or the error's own text when that is a
  non-empty string.
\<close>

datatype thrown = WithResponse nat "string option" | WithRequest | OtherError "string option"

datatype error_code =
    AUTH_ERROR | FORBIDDEN | NOT_FOUND | RATE_LIMIT | SERVER_ERROR | HTTP nat
  | NETWORK_ERROR | GENERAL_ERROR

record api_failure =
  code :: error_code
  detail :: "string option"

definition truthy_text :: "string option \<Rightarrow> string option" where
  "truthy_text t = (if t = Some [] then None else t)"

definition status_code :: "nat \<Rightarrow> error_code" where
  "status_code status =
     (if status = 401 then AUTH_ERROR
      else if status = 403 then FORBIDDEN
      else if status = 404 then NOT_FOUND
      else if status = 429 then RATE_LIMIT
      else if status = 500 then SERVER_ERROR
      else HTTP status)"

fun handleApiError :: "thrown \<Rightarrow> api_failure" where
  "handleApiError (WithResponse status dataError) =
     \<lparr>code = status_code status, detail = truthy_text dataError\<rparr>"
| "handleApiError WithRequest = \<lparr>code = NETWORK_ERROR, detail = None\<rparr>"
| "handleApiError (OtherError msg) = \<lparr>code = GENERAL_ERROR, detail = truthy_text msg\<rparr>"

text \<open>
  One pass of the \<open>try\<close> block after the validation builds the request, posts it and
  extracts the answer; the prompt, the model, the chat id and the personality only shape
  the request.  \<open>outcome k\<close> is what the remote side makes of attempt \<open>k\<close>: the answer
  text, or the error thrown.  The trace records each post and each \<open>setTimeout\<close> wait in
  milliseconds.  A loop that ends without a \<open>return\<close> yields \<open>undefined\<close>.
\<close>

datatype event = Post int | Sleep int

datatype gen_result = Generated string | Rejected text_error | Failed api_failure | Undefined

function attempt_loop ::
  "int \<Rightarrow> js_string \<Rightarrow> (int \<Rightarrow> thrown + string) \<Rightarrow> int \<Rightarrow> event list
     \<Rightarrow> gen_result \<times> event list" where
  "attempt_loop retries text outcome attempt tr =
     (if attempt \<le> retries then
        (case validateText text None of
           Inl v \<Rightarrow> (Rejected v, tr)
         | Inr cleanText \<Rightarrow>
             (case outcome attempt of
                Inr responseText \<Rightarrow> (Generated responseText, tr @ [Post attempt])
              | Inl err \<Rightarrow>
                  if attempt = retries
                    then (Failed (handleApiError err), tr @ [Post attempt])
                  else attempt_loop retries text outcome (attempt + 1)
                         (tr @ [Post attempt, Sleep (2000 * attempt)])))
      else (Undefined, tr))"
  by pat_completeness auto
termination
  by (relation "measure (\<lambda>(retries, text, outcome, attempt, tr). nat (retries + 1 - attempt))")
    auto

declare attempt_loop.simps [simp del]

text \<open>\<open>const retries = maxRetries || config.qwen.maxRetries\<close>: \<open>null\<close> and \<open>0\<close> are falsy.\<close>

definition effective_retries :: "config \<Rightarrow> int option \<Rightarrow> int" where
  "effective_retries cfg maxRetries =
     (case maxRetries of
        None \<Rightarrow> qwen_maxRetries cfg
      | Some n \<Rightarrow> if n = 0 then qwen_maxRetries cfg else n)"

definition generateComments ::
  "config \<Rightarrow> js_string \<Rightarrow> int option \<Rightarrow> (int \<Rightarrow> thrown + string) \<Rightarrow> gen_result \<times> event list" where
  "generateComments cfg text maxRetries outcome =
     attempt_loop (effective_retries cfg maxRetries) text outcome 1 []"

section \<open>Sequences of operations on the flat-file chat store\<close>

datatype operation =
    CreateChat int js_string timestamp string timestamp timestamp
  | SelectChat int string timestamp
  | RenameChat int string js_string
  | DeleteChat int string
  | UpdateChatStats int string timestamp
  | GetChats int
  | GetActiveChat int
  | AutoCleanup timestamp

fun apply_operation :: "config \<Rightarrow> userChats \<Rightarrow> operation \<Rightarrow> userChats" where
  "apply_operation cfg m (CreateChat u nm tid rnd tc tu) = fst (createChatJSON cfg m u nm tid rnd tc tu)"
| "apply_operation cfg m (SelectChat u cid now) = fst (selectChatJSON m u cid now)"
| "apply_operation cfg m (RenameChat u cid nm) = fst (renameChat cfg m u cid nm)"
| "apply_operation cfg m (DeleteChat u cid) = fst (deleteChat m u cid)"
| "apply_operation cfg m (UpdateChatStats u cid now) = updateChatStats m u cid now"
| "apply_operation cfg m (GetChats u) = fst (getChatsJSON m u)"
| "apply_operation cfg m (GetActiveChat u) = fst (getActiveChatJSON m u)"
| "apply_operation cfg m (AutoCleanup now) = autoCleanup m now"

definition run :: "config \<Rightarrow> operation list \<Rightarrow> userChats \<Rightarrow> userChats" where
  "run cfg ops m = foldl (apply_operation cfg) m ops"

section \<open>Properties stated by the specification\<close>

text \<open>What a caller sees of a user in the flat-file store: the chats and the active id.\<close>

definition user_view :: "userChats \<Rightarrow> int \<Rightarrow> userData" where
  "user_view m userId = snd (getUserData m userId)"

text \<open>The active id does not dangle: it is \<open>null\<close> or the id of one of the user's chats.\<close>

definition active_ok :: "userData \<Rightarrow> bool" where
  "active_ok ud =
     (case activeChatId ud of None \<Rightarrow> True | Some a \<Rightarrow> a \<in> set (map chat_id (chats ud)))"

definition ids_nonempty :: "userData \<Rightarrow> bool" where
  "ids_nonempty ud = list_all (\<lambda>c. chat_id c \<noteq> []) (chats ud)"

text \<open>A listing of rows with the most recently updated first.\<close>

definition updated_desc :: "chat_row list \<Rightarrow> bool" where
  "updated_desc rows = sorted_wrt (\<lambda>a b. updated_at b \<le> updated_at a) rows"


text \<open>
  The events of the \<open>n\<close> attempts \<open>a\<close>, \<open>a + 1\<close>, ... that fail and are retried: each
  posts and then waits.
\<close>

fun failed_attempts :: "int \<Rightarrow> nat \<Rightarrow> event list" where
  "failed_attempts a 0 = []"
| "failed_attempts a (Suc n) = [Post a, Sleep (2000 * a)] @ failed_attempts (a + 1) n"

text \<open>The trace of \<open>k\<close> attempts of which the first \<open>k - 1\<close> failed.\<close>

definition retry_trace :: "nat \<Rightarrow> event list" where
  "retry_trace k =
     concat (map (\<lambda>i. [Post (int i), Sleep (2000 * int i)]) [1..<k]) @ [Post (int k)]"

definition is_post :: "event \<Rightarrow> bool" where
  "is_post ev = (case ev of Post k \<Rightarrow> True | Sleep d \<Rightarrow> False)"

section \<open>Example configurations and states\<close>

text \<open>
  Modelled from the spec: the configuration file is not among the sources; these are the
  defaults the specification lists (10 chats, names of 50 code units, 3 attempts).
\<close>

definition default_config :: config where
  "default_config =
     \<lparr>maxChatsPerUser = 10, maxChatNameLength = 50, defaultModel = ''qwen-max-latest'',
      qwen_maxRetries = 3\<rparr>"

definition small_config :: config where
  "small_config =
     \<lparr>maxChatsPerUser = 2, maxChatNameLength = 3, defaultModel = ''qwen-max-latest'',
      qwen_maxRetries = 3\<rparr>"

definition env_at :: "nat \<Rightarrow> string \<Rightarrow> env" where
  "env_at t rnd =
     \<lparr>date_now = t, random_text = rnd, date_created = t, date_used = t, current_timestamp = t\<rparr>"

definition empty_db :: database where
  "empty_db = \<lparr>users = [], chat_rows = [], chat_seq = 0, feedback_rows = [], feedback_seq = 0\<rparr>"

definition json_manager :: chatManager where
  "json_manager =
     \<lparr>userChats = Map.empty, userSettings = Map.empty, db = empty_db, useDatabase = False\<rparr>"

definition db_manager :: chatManager where
  "db_manager =
     \<lparr>userChats = Map.empty, userSettings = Map.empty, db = empty_db, useDatabase = True\<rparr>"

definition chat_A :: chat where
  "chat_A = \<lparr>chat_id = ''chat_10_a'', name = [0x41], createdAt = 10, lastUsed = 10, messageCount = 0\<rparr>"

definition chat_B :: chat where
  "chat_B = \<lparr>chat_id = ''chat_20_b'', name = [0x42], createdAt = 20, lastUsed = 20, messageCount = 0\<rparr>"

definition chat_C :: chat where
  "chat_C = \<lparr>chat_id = ''chat_30_c'', name = [0x43], createdAt = 30, lastUsed = 30, messageCount = 0\<rparr>"

definition one_chat_manager :: chatManager where
  "one_chat_manager =
     json_manager\<lparr>userChats := [7 \<mapsto> \<lparr>chats = [chat_A], activeChatId = Some ''chat_10_a''\<rparr>]\<rparr>"

definition full_manager :: chatManager where
  "full_manager =
     json_manager\<lparr>userChats :=
       [7 \<mapsto> \<lparr>chats = [chat_A, chat_B], activeChatId = Some ''chat_20_b''\<rparr>]\<rparr>"


text \<open>
  The invariant of the flat-file store that the operations keep: no active id dangles and
  no chat has the empty string as its id (ids are built with the prefix \<open>chat_\<close>).
\<close>

definition user_inv :: "userData \<Rightarrow> bool" where
  "user_inv ud = (active_ok ud \<and> ids_nonempty ud)"

definition store_inv :: "userChats \<Rightarrow> bool" where
  "store_inv m = (\<forall>u ud. m u = Some ud \<longrightarrow> user_inv ud)"

text \<open>
  A run of the flat-file store: two chats are created, the second is selected and then
  deleted, a sweep far in the future removes the first, and a third chat is created.
\<close>

definition example_run :: "operation list" where
  "example_run =
     [CreateChat 7 [0x41] 10 ''a'' 10 10, CreateChat 7 [0x42] 20 ''b'' 20 20,
      SelectChat 7 ''chat_20_b'' 30, DeleteChat 7 ''chat_20_b'',
      AutoCleanup 5000000000, CreateChat 7 [0x43] 5000000001 ''c'' 5000000001 5000000001]"

text \<open>
  Three chats are created in the order A, B, C; C is selected; then C is deleted.
\<close>

definition before_delete :: "operation list" where
  "before_delete =
     [CreateChat 7 [0x41] 10 ''a'' 10 10, CreateChat 7 [0x42] 20 ''b'' 20 20,
      CreateChat 7 [0x43] 30 ''c'' 30 30, SelectChat 7 ''chat_30_c'' 40]"

definition delete_run :: "operation list" where
  "delete_run = before_delete @ [DeleteChat 7 ''chat_30_c'']"

text \<open>The rows of the chats A and B of the first user of an empty database.\<close>

definition row_A :: chat_row where
  "row_A = \<lparr>row_id = 1, owner_id = 1, row_name = [0x41], model = ''qwen-max-latest'',
            is_active = True, message_count = 0, created_at = 10, updated_at = 10\<rparr>"

definition row_B :: chat_row where
  "row_B = \<lparr>row_id = 2, owner_id = 1, row_name = [0x42], model = ''qwen-max-latest'',
            is_active = True, message_count = 0, created_at = 20, updated_at = 20\<rparr>"

definition db_with_A :: database where
  "db_with_A =
     \<lparr>users = [\<lparr>user_id = 1, telegram_id = 7\<rparr>], chat_rows = [row_A], chat_seq = 1,
      feedback_rows = [], feedback_seq = 0\<rparr>"

definition db_with_A_B :: database where
  "db_with_A_B =
     \<lparr>users = [\<lparr>user_id = 1, telegram_id = 7\<rparr>],
      chat_rows = [row_A\<lparr>is_active := False\<rparr>, row_B], chat_seq = 2,
      feedback_rows = [], feedback_seq = 0\<rparr>"

definition settings_7 :: "int \<rightharpoonup> string" where
  "settings_7 = [7 \<mapsto> ''qwen-max-latest'']"

definition json_learning :: learningManager where
  "json_learning =
     \<lparr>feedbackCache = Map.empty, learning_db = empty_db, learning_useDatabase = False\<rparr>"

definition db_learning :: learningManager where
  "db_learning =
     \<lparr>feedbackCache = Map.empty, learning_db = empty_db, learning_useDatabase = True\<rparr>"

definition feedback_9 :: feedback where
  "feedback_9 = \<lparr>feedback_id = ''feedback_50_f'', commentId = ''c1'', body = CommentRating 9,
                  gen_context = ''{}'', timestamp = 50\<rparr>"

text \<open>A remote side that never answers, and one that answers the second attempt.\<close>

definition always_down :: "int \<Rightarrow> thrown + string" where
  "always_down i = Inl WithRequest"

definition up_on_second :: "int \<Rightarrow> thrown + string" where
  "up_on_second i = (if i = 2 then Inr ''ok'' else Inl (WithResponse 500 None))"

section \<open>Counting feedback\<close>

text \<open>
  The records of a user, the ratings among them in the order they were written, and the
  number of improvement requests.
\<close>

definition user_feedback :: "feedbackCache \<Rightarrow> int \<Rightarrow> feedback list" where
  "user_feedback m userId = (case m userId of None \<Rightarrow> [] | Some fs \<Rightarrow> fs)"




definition feedback_3 :: feedback where
  "feedback_3 = \<lparr>feedback_id = ''feedback_50_f'', commentId = ''E1'', body = CommentRating 3,
                  gen_context = ''{}'', timestamp = 50\<rparr>"

section \<open>Verified properties\<close>

subsection \<open>Facts about the stores\<close>

lemma user_view_getUserData:
  "user_view (fst (getUserData m u)) v = user_view m v"
  by (auto simp: user_view_def getUserData_def split: option.splits)

lemma getUserData_snd: "snd (getUserData m u) = user_view m u"
  by (simp add: user_view_def)

lemma getUserData_fst_same: "fst (getUserData m u) u = Some (user_view m u)"
  by (auto simp: user_view_def getUserData_def split: option.splits)

lemma user_view_upd: "user_view (m(u \<mapsto> d)) v = (if v = u then d else user_view m v)"
  by (auto simp: user_view_def getUserData_def split: option.splits)

lemma find_append_new:
  "find p xs = None \<Longrightarrow> p x \<Longrightarrow> find p (xs @ [x]) = Some x"
  by (induction xs) auto

lemma getUserOrCreate_idem:
  "getUserOrCreate (fst (getUserOrCreate d t)) t = (fst (getUserOrCreate d t), snd (getUserOrCreate d t))"
  by (auto simp: getUserOrCreate_def Let_def find_append_new split: option.splits)

lemma getUserOrCreate_rows:
  "chat_rows (fst (getUserOrCreate d t)) = chat_rows d"
  by (auto simp: getUserOrCreate_def Let_def split: option.splits)

subsection \<open>Creating a chat at the limit\<close>

lemma createChatJSON_at_limit:
  assumes "maxChatsPerUser cfg \<le> int (length (chats (user_view m userId)))"
  shows "snd (createChatJSON cfg m userId nm tid rnd tc tu) = Inl (LimitReached (maxChatsPerUser cfg))"
    and "user_view (fst (createChatJSON cfg m userId nm tid rnd tc tu)) v = user_view m v"
  using assms
  by (simp_all add: createChatJSON_def case_prod_beta getUserData_snd user_view_getUserData)

lemma createChatDB_at_limit:
  assumes "maxChatsPerUser cfg \<le> int (length (fst (snd (getChatsDB cm userId))))"
  shows "snd (createChatDB cfg cm userId nm now) = Inl (LimitReached (maxChatsPerUser cfg))"
    and "chat_rows (db (fst (createChatDB cfg cm userId nm now))) = chat_rows (db cm)"
    and "snd (getChatsDB (fst (createChatDB cfg cm userId nm now)) userId) = snd (getChatsDB cm userId)"
    and "userChats (fst (createChatDB cfg cm userId nm now)) = userChats cm"
    and "useDatabase (fst (createChatDB cfg cm userId nm now)) = useDatabase cm"
  using assms
  by (simp_all add: createChatDB_def getChatsDB_def Let_def case_prod_beta getUserOrCreate_idem
        getUserOrCreate_rows)

text \<open>
  Claim C3.  When the user already has at least the configured maximum number of chats,
  \<open>createChat\<close> fails with the limit message (a \<open>LimitExceeded\<close> error), whichever backend
  is in use, and nothing changes: the listing of the user (the chats, their order and
  the active id) is the same afterwards, no row of the \<open>chats\<close> table is touched, and
  every user of the flat-file store has the chats and the active id they had.
\<close>

theorem createChat_limit_reached:
  assumes "maxChatsPerUser cfg \<le> int (length (fst (snd (ChatManager_getChats cm userId))))"
  shows "snd (ChatManager_createChat cfg e cm userId chatName) = Inl (LimitReached (maxChatsPerUser cfg))
       \<and> kind_of (LimitReached (maxChatsPerUser cfg)) = LimitExceeded
       \<and> snd (ChatManager_getChats (fst (ChatManager_createChat cfg e cm userId chatName)) userId)
           = snd (ChatManager_getChats cm userId)
       \<and> chat_rows (db (fst (ChatManager_createChat cfg e cm userId chatName))) = chat_rows (db cm)
       \<and> (\<forall>v. user_view (userChats (fst (ChatManager_createChat cfg e cm userId chatName))) v
               = user_view (userChats cm) v)"
proof (cases "useDatabase cm")
  case True
  with assms have lim: "maxChatsPerUser cfg \<le> int (length (fst (snd (getChatsDB cm userId))))"
    by (simp add: ChatManager_getChats_def case_prod_beta)
  show ?thesis
    using True createChatDB_at_limit [OF lim]
    by (simp add: ChatManager_createChat_def ChatManager_getChats_def lift_db_def case_prod_beta)
next
  case False
  with assms have lim: "maxChatsPerUser cfg \<le> int (length (chats (user_view (userChats cm) userId)))"
    by (simp add: ChatManager_getChats_def getChatsJSON_def case_prod_beta getUserData_snd)
  show ?thesis
    using False createChatJSON_at_limit [OF lim]
    by (simp add: ChatManager_createChat_def ChatManager_getChats_def lift_json_def
          getChatsJSON_def case_prod_beta getUserData_snd)
qed

text \<open>
  Claim C3, at a concrete state: with a limit of two chats, a user who has the chats A
  and B (B active) asks for a third one.
\<close>

theorem createChat_limit_reached_witness:
  "maxChatsPerUser small_config \<le> int (length (fst (snd (ChatManager_getChats full_manager 7))))
   \<and> snd (ChatManager_createChat small_config (env_at 30 ''c'') full_manager 7 [0x43])
        = Inl (LimitReached 2)
   \<and> snd (ChatManager_getChats
            (fst (ChatManager_createChat small_config (env_at 30 ''c'') full_manager 7 [0x43])) 7)
        = ([JsonChat chat_A, JsonChat chat_B], Some (JsonId ''chat_20_b''))"
proof -
  have h: "maxChatsPerUser small_config
             \<le> int (length (fst (snd (ChatManager_getChats full_manager 7))))"
    by (simp add: small_config_def full_manager_def json_manager_def ChatManager_getChats_def
          getChatsJSON_def getUserData_def)
  have v: "snd (ChatManager_getChats full_manager 7)
             = ([JsonChat chat_A, JsonChat chat_B], Some (JsonId ''chat_20_b''))"
    by (simp add: full_manager_def json_manager_def ChatManager_getChats_def
          getChatsJSON_def getUserData_def)
  from createChat_limit_reached [OF h, of "env_at 30 ''c''" "[0x43]"] h v show ?thesis
    by (simp add: small_config_def)
qed

subsection \<open>The bound on the length of a chat name\<close>
















subsection \<open>The active id of the flat-file store never dangles\<close>

lemma user_inv_empty: "user_inv \<lparr>chats = [], activeChatId = None\<rparr>"
  by (simp add: user_inv_def active_ok_def ids_nonempty_def)

lemma store_inv_getUserData:
  "store_inv m \<Longrightarrow> store_inv (fst (getUserData m u))"
  by (auto simp: store_inv_def getUserData_def user_inv_empty split: option.splits if_splits)

lemma store_inv_view: "store_inv m \<Longrightarrow> user_inv (user_view m u)"
  by (auto simp: store_inv_def user_view_def getUserData_def user_inv_empty split: option.splits)

lemma store_inv_upd: "store_inv m \<Longrightarrow> user_inv d \<Longrightarrow> store_inv (m(u \<mapsto> d))"
  by (auto simp: store_inv_def)

lemma map_id_update_first:
  "(\<And>x. chat_id (f x) = chat_id x) \<Longrightarrow> map chat_id (update_first p f xs) = map chat_id xs"
  by (induction xs) auto

lemma find_Some_set: "find p xs = Some x \<Longrightarrow> x \<in> set xs \<and> p x"
  by (induction xs) (auto split: if_splits)

lemma find_None_iff': "find p xs = None \<longleftrightarrow> (\<forall>x\<in>set xs. \<not> p x)"
  by (induction xs) auto

lemma set_remove_first: "set (remove_first p xs) \<subseteq> set xs"
  by (induction xs) auto

lemma remove_first_keeps: "x \<in> set xs \<Longrightarrow> \<not> p x \<Longrightarrow> x \<in> set (remove_first p xs)"
  by (induction xs) auto

lemma set_remove_old: "set (remove_old os cs) \<subseteq> set cs"
proof (induction os arbitrary: cs)
  case Nil
  show ?case by simp
next
  case (Cons a os)
  have "set (remove_old os (remove_first (\<lambda>c. chat_id c = chat_id a) cs))
          \<subseteq> set (remove_first (\<lambda>c. chat_id c = chat_id a) cs)"
    by (rule Cons.IH)
  also have "\<dots> \<subseteq> set cs" by (rule set_remove_first)
  finally show ?case by simp
qed

lemma first_id_in: "first_id cs = Some a \<Longrightarrow> a \<in> set (map chat_id cs)"
  by (cases cs) (auto simp: first_id_def)

lemma ids_nonempty_subset:
  "set cs' \<subseteq> set cs \<Longrightarrow> list_all (\<lambda>c. chat_id c \<noteq> []) cs \<Longrightarrow> list_all (\<lambda>c. chat_id c \<noteq> []) cs'"
  by (auto simp: list_all_iff)

lemma ids_nonempty_map:
  "map chat_id cs' = map chat_id cs \<Longrightarrow> list_all (\<lambda>c. chat_id c \<noteq> []) cs
     \<Longrightarrow> list_all (\<lambda>c. chat_id c \<noteq> []) cs'"
proof -
  assume a: "map chat_id cs' = map chat_id cs" and b: "list_all (\<lambda>c. chat_id c \<noteq> []) cs"
  have "list_all (\<lambda>i. i \<noteq> []) (map chat_id cs)" using b by (simp add: list_all_iff)
  with a have "list_all (\<lambda>i. i \<noteq> []) (map chat_id cs')" by simp
  then show ?thesis by (simp add: list_all_iff)
qed

lemma same_ids_image:
  "map chat_id cs = map chat_id cs' \<Longrightarrow> chat_id ` set cs = chat_id ` set cs'"
  by (metis set_map)

lemma new_chat_id_nonempty: "new_chat_id tid rnd \<noteq> []"
  by (simp add: new_chat_id_def)

lemma user_inv_create:
  assumes "user_inv ud"
  shows "user_inv \<lparr>chats = chats ud @ [\<lparr>chat_id = new_chat_id tid rnd, name = nm, createdAt = tc,
                         lastUsed = tu, messageCount = 0\<rparr>],
                  activeChatId = (if length (chats ud) = 0 then Some (new_chat_id tid rnd)
                                  else activeChatId ud)\<rparr>"
  using assms
  by (auto simp: user_inv_def active_ok_def ids_nonempty_def new_chat_id_nonempty
      split: option.splits)

lemma store_inv_createChatJSON:
  assumes "store_inv m"
  shows "store_inv (fst (createChatJSON cfg m u nm tid rnd tc tu))"
proof -
  have v: "user_inv (user_view m u)" using assms by (rule store_inv_view)
  have g: "store_inv (fst (getUserData m u))" using assms by (rule store_inv_getUserData)
  show ?thesis
    using store_inv_upd [OF g user_inv_create [OF v, of tid rnd nm tc tu], of u] g
    by (auto simp: createChatJSON_def case_prod_beta getUserData_snd Let_def)
qed

lemma user_inv_select:
  assumes "user_inv ud" and "find (\<lambda>c. chat_id c = cid) (chats ud) = Some c"
  shows "user_inv \<lparr>chats = update_first (\<lambda>c. chat_id c = cid) (\<lambda>c. c\<lparr>lastUsed := now\<rparr>) (chats ud),
                  activeChatId = Some cid\<rparr>"
proof -
  have m: "map chat_id (update_first (\<lambda>c. chat_id c = cid) (\<lambda>c. c\<lparr>lastUsed := now\<rparr>) (chats ud))
             = map chat_id (chats ud)"
    by (rule map_id_update_first) simp
  have "cid \<in> set (map chat_id (chats ud))"
    using find_Some_set [OF assms(2)] by auto
  with assms(1) show ?thesis
    by (simp add: user_inv_def active_ok_def ids_nonempty_def ids_nonempty_map [OF m]
          same_ids_image [OF m])
qed

lemma store_inv_selectChatJSON:
  assumes "store_inv m"
  shows "store_inv (fst (selectChatJSON m u cid now))"
proof -
  have v: "user_inv (user_view m u)" using assms by (rule store_inv_view)
  have g: "store_inv (fst (getUserData m u))" using assms by (rule store_inv_getUserData)
  show ?thesis
  proof (cases "find (\<lambda>c. chat_id c = cid) (chats (user_view m u))")
    case None
    with g show ?thesis
      by (simp add: selectChatJSON_def case_prod_beta getUserData_snd)
  next
    case (Some c)
    from store_inv_upd [OF g user_inv_select [OF v Some, of now], of u] Some show ?thesis
      by (simp add: selectChatJSON_def case_prod_beta getUserData_snd)
  qed
qed

lemma user_inv_same_ids:
  assumes "user_inv ud" and "map chat_id cs = map chat_id (chats ud)"
  shows "user_inv (ud\<lparr>chats := cs\<rparr>)"
  using assms(1)
  by (simp add: user_inv_def active_ok_def ids_nonempty_def ids_nonempty_map [OF assms(2)]
        same_ids_image [OF assms(2)] split: option.splits)

lemma store_inv_renameChat:
  assumes "store_inv m"
  shows "store_inv (fst (renameChat cfg m u cid nm))"
proof -
  have v: "user_inv (user_view m u)" using assms by (rule store_inv_view)
  have g: "store_inv (fst (getUserData m u))" using assms by (rule store_inv_getUserData)
  have i: "map chat_id (update_first (\<lambda>c. chat_id c = cid) (\<lambda>c. c\<lparr>name := nm\<rparr>) (chats (user_view m u)))
             = map chat_id (chats (user_view m u))"
    by (rule map_id_update_first) simp
  from store_inv_upd [OF g user_inv_same_ids [OF v i], of u] g show ?thesis
    by (simp add: renameChat_def case_prod_beta getUserData_snd split: option.splits)
qed

lemma store_inv_updateChatStats:
  assumes "store_inv m"
  shows "store_inv (updateChatStats m u cid now)"
proof -
  have v: "user_inv (user_view m u)" using assms by (rule store_inv_view)
  have g: "store_inv (fst (getUserData m u))" using assms by (rule store_inv_getUserData)
  have i: "map chat_id (update_first (\<lambda>c. chat_id c = cid)
              (\<lambda>c. c\<lparr>lastUsed := now, messageCount := messageCount c + 1\<rparr>) (chats (user_view m u)))
             = map chat_id (chats (user_view m u))"
    by (rule map_id_update_first) simp
  from store_inv_upd [OF g user_inv_same_ids [OF v i], of u] show ?thesis
    by (simp add: updateChatStats_def case_prod_beta getUserData_snd)
qed

lemma user_inv_delete:
  assumes "user_inv ud"
  shows "user_inv \<lparr>chats = remove_first (\<lambda>c. chat_id c = cid) (chats ud),
                  activeChatId = (if activeChatId ud = Some cid
                                  then first_id (remove_first (\<lambda>c. chat_id c = cid) (chats ud))
                                  else activeChatId ud)\<rparr>"
proof -
  let ?cs = "remove_first (\<lambda>c. chat_id c = cid) (chats ud)"
  have ne: "list_all (\<lambda>c. chat_id c \<noteq> []) ?cs"
    using assms set_remove_first [of "\<lambda>c. chat_id c = cid" "chats ud"]
    by (auto simp: user_inv_def ids_nonempty_def list_all_iff)
  have act: "active_ok \<lparr>chats = ?cs, activeChatId = (if activeChatId ud = Some cid
                                  then first_id ?cs else activeChatId ud)\<rparr>"
  proof (cases "activeChatId ud = Some cid")
    case True
    then show ?thesis
      by (auto simp: active_ok_def dest: first_id_in split: option.splits)
  next
    case False
    show ?thesis
    proof (cases "activeChatId ud")
      case None
      with False show ?thesis by (simp add: active_ok_def)
    next
      case (Some a)
      with False have "a \<noteq> cid" by simp
      from Some assms obtain c where c: "c \<in> set (chats ud)" "chat_id c = a"
        by (auto simp: user_inv_def active_ok_def)
      with \<open>a \<noteq> cid\<close> have "c \<in> set ?cs" by (auto intro: remove_first_keeps)
      with c Some False show ?thesis by (auto simp: active_ok_def)
    qed
  qed
  from ne act show ?thesis by (simp add: user_inv_def ids_nonempty_def)
qed

lemma store_inv_deleteChat:
  assumes "store_inv m"
  shows "store_inv (fst (deleteChat m u cid))"
proof -
  have v: "user_inv (user_view m u)" using assms by (rule store_inv_view)
  have g: "store_inv (fst (getUserData m u))" using assms by (rule store_inv_getUserData)
  from store_inv_upd [OF g user_inv_delete [OF v, of cid], of u] g show ?thesis
    by (simp add: deleteChat_def case_prod_beta getUserData_snd Let_def split: option.splits)
qed

lemma user_inv_cleanup:
  assumes "user_inv ud"
  shows "user_inv (cleanupUser now ud)"
proof -
  let ?cs = "remove_old (filter (is_old now) (chats ud)) (chats ud)"
  have sub: "set ?cs \<subseteq> set (chats ud)" by (rule set_remove_old)
  have ne: "list_all (\<lambda>c. chat_id c \<noteq> []) ?cs"
    using assms sub by (auto simp: user_inv_def ids_nonempty_def list_all_iff)
  show ?thesis
  proof (cases "activeChatId ud")
    case None
    with ne show ?thesis
      by (simp add: cleanupUser_def Let_def user_inv_def active_ok_def ids_nonempty_def falsy_def)
  next
    case (Some a)
    from Some assms obtain c where c: "c \<in> set (chats ud)" "chat_id c = a"
      by (auto simp: user_inv_def active_ok_def)
    with assms have "a \<noteq> []" by (auto simp: user_inv_def ids_nonempty_def list_all_iff)
    with Some have nf: "\<not> falsy (activeChatId ud)" by (simp add: falsy_def)
    show ?thesis
    proof (cases "find (\<lambda>c. Some (chat_id c) = activeChatId ud) ?cs")
      case None
      with nf ne show ?thesis
        by (auto simp: cleanupUser_def Let_def user_inv_def active_ok_def ids_nonempty_def
            dest: first_id_in split: option.splits)
    next
      case (Some c')
      from find_Some_set [OF Some] \<open>activeChatId ud = Some a\<close>
      have "c' \<in> set ?cs" "chat_id c' = a" by auto
      with Some nf ne \<open>activeChatId ud = Some a\<close> show ?thesis
        by (auto simp: cleanupUser_def Let_def user_inv_def active_ok_def ids_nonempty_def)
    qed
  qed
qed

lemma store_inv_autoCleanup:
  assumes "store_inv m"
  shows "store_inv (autoCleanup m now)"
  using assms by (auto simp: store_inv_def autoCleanup_def user_inv_cleanup)

lemma store_inv_apply:
  "store_inv m \<Longrightarrow> store_inv (apply_operation cfg m operation)"
  by (cases operation)
    (simp_all add: store_inv_createChatJSON store_inv_selectChatJSON store_inv_renameChat
      store_inv_deleteChat store_inv_updateChatStats store_inv_autoCleanup
      getChatsJSON_def getActiveChatJSON_def case_prod_beta store_inv_getUserData
      split: option.splits)

lemma store_inv_run: "store_inv m \<Longrightarrow> store_inv (run cfg ops m)"
  unfolding run_def
  by (induction ops arbitrary: m) (simp_all add: store_inv_apply)

lemma store_inv_empty: "store_inv Map.empty"
  by (simp add: store_inv_def)

text \<open>
  Claim C10.  In the flat-file store, after any sequence of \<open>createChat\<close>, \<open>selectChat\<close>,
  \<open>renameChat\<close>, \<open>deleteChat\<close>, \<open>updateChatStats\<close>, the two read operations and
  firings of the sweep, the \<open>activeChatId\<close> of every user is \<open>null\<close> or the id of a chat in
  that user's list.  This holds from the empty store, and from every store in which no
  active id dangles and no chat id is the empty string.
\<close>

theorem active_chat_never_dangles:
  "(run cfg ops Map.empty userId = Some ud \<longrightarrow> active_ok ud)
   \<and> (store_inv m \<longrightarrow> run cfg ops m userId = Some ud' \<longrightarrow> active_ok ud')"
proof (intro conjI impI)
  assume r: "run cfg ops Map.empty userId = Some ud"
  have "store_inv (run cfg ops Map.empty)" by (rule store_inv_run [OF store_inv_empty])
  with r have "user_inv ud" unfolding store_inv_def by blast
  then show "active_ok ud" by (simp add: user_inv_def)
next
  assume i: "store_inv m" and r: "run cfg ops m userId = Some ud'"
  have "store_inv (run cfg ops m)" by (rule store_inv_run [OF i])
  with r have "user_inv ud'" unfolding store_inv_def by blast
  then show "active_ok ud'" by (simp add: user_inv_def)
qed

lemma example_run_result:
  "run small_config example_run Map.empty 7
     = Some \<lparr>chats = [\<lparr>chat_id = ''chat_5000000001_c'', name = [0x43], createdAt = 5000000001,
                        lastUsed = 5000000001, messageCount = 0\<rparr>],
             activeChatId = Some ''chat_5000000001_c''\<rparr>"
  by (simp add: run_def example_run_def small_config_def createChatJSON_def selectChatJSON_def
        deleteChat_def autoCleanup_def cleanupUser_def getUserData_def new_chat_id_def dec.simps
        digit_char_def first_id_def falsy_def is_old_def Let_def)

text \<open>Claim C10, on the example run: the user ends with one chat, which is the active one.\<close>

theorem active_chat_never_dangles_witness:
  "store_inv Map.empty
   \<and> run small_config example_run Map.empty 7
       = Some \<lparr>chats = [\<lparr>chat_id = ''chat_5000000001_c'', name = [0x43],
                          createdAt = 5000000001, lastUsed = 5000000001, messageCount = 0\<rparr>],
               activeChatId = Some ''chat_5000000001_c''\<rparr>
   \<and> active_ok \<lparr>chats = [\<lparr>chat_id = ''chat_5000000001_c'', name = [0x43],
                          createdAt = 5000000001, lastUsed = 5000000001, messageCount = 0\<rparr>],
               activeChatId = Some ''chat_5000000001_c''\<rparr>"
proof -
  let ?ud = "\<lparr>chats = [\<lparr>chat_id = ''chat_5000000001_c'', name = [0x43],
                          createdAt = 5000000001, lastUsed = 5000000001, messageCount = 0\<rparr>],
               activeChatId = Some ''chat_5000000001_c''\<rparr>"
  have a: "active_ok ?ud"
    using active_chat_never_dangles [of small_config example_run 7 ?ud Map.empty ?ud]
      example_run_result store_inv_empty
    by (elim conjE) (rule mp)
  show ?thesis
    by (intro conjI) (rule store_inv_empty, rule example_run_result, rule a)
qed

subsection \<open>Deleting the active chat\<close>

lemma example_ids:
  "new_chat_id 10 ''a'' = ''chat_10_a''" "new_chat_id 20 ''b'' = ''chat_20_b''"
  "new_chat_id 30 ''c'' = ''chat_30_c''"
  by (simp_all add: new_chat_id_def dec.simps digit_char_def)

lemma before_delete_result:
  "run default_config before_delete Map.empty 7
     = Some \<lparr>chats = [chat_A, chat_B, chat_C\<lparr>lastUsed := 40\<rparr>], activeChatId = Some ''chat_30_c''\<rparr>"
  by (simp add: run_def before_delete_def default_config_def createChatJSON_def selectChatJSON_def
        getUserData_def example_ids Let_def chat_A_def chat_B_def chat_C_def)

lemma deleteChat_active:
  assumes "activeChatId (user_view m u) = Some cid"
      and "find (\<lambda>c. chat_id c = cid) (chats (user_view m u)) = Some c0"
  shows "snd (deleteChat m u cid) = Inr c0"
    and "user_view (fst (deleteChat m u cid)) u
          = \<lparr>chats = remove_first (\<lambda>c. chat_id c = cid) (chats (user_view m u)),
             activeChatId = first_id (remove_first (\<lambda>c. chat_id c = cid) (chats (user_view m u)))\<rparr>"
  using assms
  by (simp_all add: deleteChat_def case_prod_beta getUserData_snd Let_def user_view_upd)

lemma getActiveChatJSON_none:
  "activeChatId (user_view m u) = None \<Longrightarrow> snd (getActiveChatJSON m u) = Inl NoActiveChat"
  by (simp add: getActiveChatJSON_def case_prod_beta getUserData_snd falsy_def)

lemma getActiveChatJSON_first:
  "chats (user_view m u) = c # cs \<Longrightarrow> activeChatId (user_view m u) = Some (chat_id c)
     \<Longrightarrow> chat_id c \<noteq> [] \<Longrightarrow> snd (getActiveChatJSON m u) = Inr c"
  by (simp add: getActiveChatJSON_def case_prod_beta getUserData_snd falsy_def)

text \<open>
  Claim C7 as stated fails.  The user creates the chats A, B and C in this order, selects
  C and deletes it.  The chat that becomes active is A, the first of the stored list,
  although the remaining chat B was both created and used after A.
\<close>

theorem delete_promotes_oldest_counterexample:
  "activeChatId (user_view (run default_config before_delete Map.empty) 7) = Some (chat_id chat_C)
   \<and> chats (user_view (run default_config delete_run Map.empty) 7) = [chat_A, chat_B]
   \<and> activeChatId (user_view (run default_config delete_run Map.empty) 7) = Some (chat_id chat_A)
   \<and> snd (getActiveChatJSON (run default_config delete_run Map.empty) 7) = Inr chat_A
   \<and> createdAt chat_A < createdAt chat_B \<and> lastUsed chat_A < lastUsed chat_B"
proof -
  have d: "run default_config delete_run Map.empty
             = fst (deleteChat (run default_config before_delete Map.empty) 7 ''chat_30_c'')"
    by (simp add: run_def delete_run_def)
  have b: "user_view (run default_config before_delete Map.empty) 7
             = \<lparr>chats = [chat_A, chat_B, chat_C\<lparr>lastUsed := 40\<rparr>], activeChatId = Some ''chat_30_c''\<rparr>"
    by (simp add: user_view_def getUserData_def before_delete_result)
  have a: "run default_config delete_run Map.empty 7
             = Some \<lparr>chats = [chat_A, chat_B], activeChatId = Some ''chat_10_a''\<rparr>"
    unfolding d
    by (simp add: deleteChat_def getUserData_def before_delete_result first_id_def
          chat_A_def chat_B_def chat_C_def)
  have va: "user_view (run default_config delete_run Map.empty) 7
             = \<lparr>chats = [chat_A, chat_B], activeChatId = Some ''chat_10_a''\<rparr>"
    by (simp add: user_view_def getUserData_def a)
  have ga: "snd (getActiveChatJSON (run default_config delete_run Map.empty) 7) = Inr chat_A"
    by (simp add: getActiveChatJSON_def getUserData_def a falsy_def chat_A_def)
  show ?thesis
    by (simp add: b va ga) (simp add: chat_A_def chat_B_def chat_C_def)
qed

text \<open>
  Claim C7, amended.  In the flat-file store, deleting the active chat returns the deleted
  chat and removes it; the active id becomes the id of the first chat that remains in the
  stored list (creations append to the list, so this is the chat that has been in it
  longest, not the most recent one), and \<open>getActiveChat\<close> then returns that chat; when no
  chat remains the active id is \<open>null\<close> and \<open>getActiveChat\<close> fails with the "no active
  chat" message (a \<open>NotFound\<close> error).
\<close>

theorem delete_active_promotes_first:
  assumes "activeChatId (user_view m u) = Some cid"
      and "find (\<lambda>c. chat_id c = cid) (chats (user_view m u)) = Some c0"
  shows "snd (deleteChat m u cid) = Inr c0
       \<and> chats (user_view (fst (deleteChat m u cid)) u)
           = remove_first (\<lambda>c. chat_id c = cid) (chats (user_view m u))
       \<and> (case chats (user_view (fst (deleteChat m u cid)) u) of
             [] \<Rightarrow> activeChatId (user_view (fst (deleteChat m u cid)) u) = None
                   \<and> snd (getActiveChatJSON (fst (deleteChat m u cid)) u) = Inl NoActiveChat
                   \<and> kind_of NoActiveChat = NotFound
           | c # cs \<Rightarrow> activeChatId (user_view (fst (deleteChat m u cid)) u) = Some (chat_id c)
                   \<and> (chat_id c \<noteq> [] \<longrightarrow>
                        snd (getActiveChatJSON (fst (deleteChat m u cid)) u) = Inr c))"
proof -
  let ?m' = "fst (deleteChat m u cid)"
  let ?cs = "remove_first (\<lambda>c. chat_id c = cid) (chats (user_view m u))"
  have v: "user_view ?m' u = \<lparr>chats = ?cs, activeChatId = first_id ?cs\<rparr>"
    by (rule deleteChat_active(2) [OF assms])
  show ?thesis
  proof (cases ?cs)
    case Nil
    with v have "activeChatId (user_view ?m' u) = None" by (simp add: first_id_def)
    from getActiveChatJSON_none [OF this] this v Nil deleteChat_active(1) [OF assms]
    show ?thesis by simp
  next
    case (Cons c cs)
    with v have a: "chats (user_view ?m' u) = c # cs" "activeChatId (user_view ?m' u) = Some (chat_id c)"
      by (simp_all add: first_id_def)
    from getActiveChatJSON_first [OF a] a v Cons deleteChat_active(1) [OF assms]
    show ?thesis by simp
  qed
qed

text \<open>
  Claim C7 amended, at concrete states: with the chats A and B and B active, deleting B
  makes A active; with the single chat A, deleting it leaves no active chat.
\<close>

theorem delete_active_promotes_first_witness:
  "activeChatId (user_view (userChats full_manager) 7) = Some ''chat_20_b''
   \<and> find (\<lambda>c. chat_id c = ''chat_20_b'') (chats (user_view (userChats full_manager) 7)) = Some chat_B
   \<and> snd (deleteChat (userChats full_manager) 7 ''chat_20_b'') = Inr chat_B
   \<and> snd (getActiveChatJSON (fst (deleteChat (userChats full_manager) 7 ''chat_20_b'')) 7) = Inr chat_A
   \<and> activeChatId (user_view (userChats one_chat_manager) 7) = Some ''chat_10_a''
   \<and> snd (getActiveChatJSON (fst (deleteChat (userChats one_chat_manager) 7 ''chat_10_a'')) 7)
        = Inl NoActiveChat"
proof -
  have v2: "user_view (userChats full_manager) 7
              = \<lparr>chats = [chat_A, chat_B], activeChatId = Some ''chat_20_b''\<rparr>"
    by (simp add: full_manager_def json_manager_def user_view_def getUserData_def)
  have a2: "activeChatId (user_view (userChats full_manager) 7) = Some ''chat_20_b''"
    by (simp add: v2)
  have f2: "find (\<lambda>c. chat_id c = ''chat_20_b'') (chats (user_view (userChats full_manager) 7))
              = Some chat_B"
    by (simp add: v2 chat_A_def chat_B_def)
  have r2: "remove_first (\<lambda>c. chat_id c = ''chat_20_b'') (chats (user_view (userChats full_manager) 7))
              = [chat_A]"
    by (simp add: v2 chat_A_def chat_B_def)
  have v1: "user_view (userChats one_chat_manager) 7
              = \<lparr>chats = [chat_A], activeChatId = Some ''chat_10_a''\<rparr>"
    by (simp add: one_chat_manager_def json_manager_def user_view_def getUserData_def)
  have a1: "activeChatId (user_view (userChats one_chat_manager) 7) = Some ''chat_10_a''"
    by (simp add: v1)
  have f1: "find (\<lambda>c. chat_id c = ''chat_10_a'') (chats (user_view (userChats one_chat_manager) 7))
              = Some chat_A"
    by (simp add: v1 chat_A_def)
  have r1: "remove_first (\<lambda>c. chat_id c = ''chat_10_a'') (chats (user_view (userChats one_chat_manager) 7))
              = []"
    by (simp add: v1 chat_A_def)
  have ne: "chat_id chat_A \<noteq> []" by (simp add: chat_A_def)
  from delete_active_promotes_first [OF a2 f2] delete_active_promotes_first [OF a1 f1]
    a2 f2 a1 r2 r1 ne
  show ?thesis by (elim conjE) simp
qed

subsection \<open>Which chat is active after a creation\<close>



lemma getUserOrCreate_cong_users:
  "users d' = users d \<Longrightarrow> snd (getUserOrCreate d' t) = snd (getUserOrCreate d t)"
  by (simp add: getUserOrCreate_def Let_def split: option.splits)

lemma getUserOrCreate_found:
  "snd (getUserOrCreate (fst (getUserOrCreate d t)) t) = snd (getUserOrCreate d t)"
  by (simp add: getUserOrCreate_idem)




lemma createChatJSON_active:
  assumes "snd (createChatJSON cfg m u nm tid rnd tc tu) = Inr c"
  shows "chats (user_view (fst (createChatJSON cfg m u nm tid rnd tc tu)) u)
           = chats (user_view m u) @ [c]
       \<and> activeChatId (user_view (fst (createChatJSON cfg m u nm tid rnd tc tu)) u)
           = (if chats (user_view m u) = [] then Some (chat_id c)
              else activeChatId (user_view m u))"
  using assms
  by (auto simp: createChatJSON_def case_prod_beta getUserData_snd Let_def user_view_upd
      split: if_splits)

lemma second_chat_json:
  "ChatManager_createChat small_config (env_at 20 ''b'') one_chat_manager 7 [0x42]
     = (json_manager\<lparr>userChats := [7 \<mapsto> \<lparr>chats = [chat_A, chat_B], activeChatId = Some ''chat_10_a''\<rparr>]\<rparr>,
        Inr (JsonChat chat_B))"
  by (simp add: ChatManager_createChat_def one_chat_manager_def json_manager_def small_config_def
        env_at_def lift_json_def createChatJSON_def getUserData_def example_ids Let_def
        chat_A_def chat_B_def)



lemma first_chat_db:
  "createChatDB small_config db_manager 7 [0x41] 10
     = (db_manager\<lparr>userSettings := settings_7, db := db_with_A\<rparr>, Inr row_A)"
  by (simp add: createChatDB_def db_manager_def empty_db_def small_config_def getUserOrCreate_def
        next_user_id_def getUserChats_def order_by_updated_desc_def getUserModel_def
        db_createChat_def deactivate_all_def Let_def row_A_def db_with_A_def settings_7_def)




subsection \<open>The order of a listing\<close>

text \<open>
  The structured store lists a user's chats by \<open>updated_at\<close>, most recent first; the
  flat-file store returns the stored array, to which a creation appends.
\<close>

lemma sorted_desc_conv:
  "sorted (map (\<lambda>r. - int (updated_at r)) rows) = updated_desc rows"
  by (simp add: updated_desc_def sorted_map)

lemma order_by_updated_desc_sorted: "updated_desc (order_by_updated_desc rows)"
  unfolding sorted_desc_conv [symmetric] order_by_updated_desc_def
  by (rule sorted_sort_key)

lemma getUserChats_sorted: "updated_desc (getUserChats d u)"
  by (simp add: getUserChats_def order_by_updated_desc_sorted)

lemma getUserChats_set:
  "set (getUserChats d u) = {r \<in> set (chat_rows d). owner_id r = u}"
  by (auto simp: getUserChats_def order_by_updated_desc_def)

lemma getChatsDB_sorted: "updated_desc (fst (snd (getChatsDB cm userId)))"
  by (simp add: getChatsDB_def Let_def case_prod_beta getUserChats_sorted)

lemma getChatsJSON_listing: "fst (snd (getChatsJSON m u)) = chats (user_view m u)"
  by (simp add: getChatsJSON_def case_prod_beta getUserData_snd)

lemma listing_order:
  "updated_desc (getUserChats d uid)
   \<and> set (getUserChats d uid) = {r \<in> set (chat_rows d). owner_id r = uid}
   \<and> updated_desc (fst (snd (getChatsDB cm userId)))
   \<and> fst (snd (getChatsJSON m userId)) = chats (user_view m userId)
   \<and> (snd (createChatJSON cfg m userId nm tid rnd tc tu) = Inr c \<longrightarrow>
        fst (snd (getChatsJSON (fst (createChatJSON cfg m userId nm tid rnd tc tu)) userId))
          = fst (snd (getChatsJSON m userId)) @ [c])"
  using createChatJSON_active [of cfg m userId nm tid rnd tc tu c]
  by (simp add: getUserChats_sorted getUserChats_set getChatsDB_sorted getChatsJSON_listing)

lemma listing_db_A_B: "getUserChats db_with_A_B 1 = [row_B, row_A\<lparr>is_active := False\<rparr>]"
  by (simp add: getUserChats_def db_with_A_B_def order_by_updated_desc_def row_A_def row_B_def)

lemma first_chat_json:
  "ChatManager_createChat small_config (env_at 10 ''a'') json_manager 7 [0x41]
     = (one_chat_manager, Inr (JsonChat chat_A))"
  by (simp add: ChatManager_createChat_def one_chat_manager_def json_manager_def small_config_def
        env_at_def lift_json_def createChatJSON_def getUserData_def example_ids Let_def
        chat_A_def)

text \<open>
  Claim C8 at the flat-file store.  The user creates the chat A and then the chat B; both
  calls succeed.  \<open>getChats\<close> returns A first and B second, although B was created and
  last used after A.  In the structured store the same two creations are listed with B
  first (\<open>listing_db_A_B\<close>).
\<close>

theorem flat_file_listing_oldest_first:
  "snd (ChatManager_createChat small_config (env_at 10 ''a'') json_manager 7 [0x41])
     = Inr (JsonChat chat_A)
   \<and> snd (ChatManager_createChat small_config (env_at 20 ''b'')
            (fst (ChatManager_createChat small_config (env_at 10 ''a'') json_manager 7 [0x41]))
            7 [0x42])
     = Inr (JsonChat chat_B)
   \<and> fst (snd (ChatManager_getChats
        (fst (ChatManager_createChat small_config (env_at 20 ''b'')
            (fst (ChatManager_createChat small_config (env_at 10 ''a'') json_manager 7 [0x41]))
            7 [0x42])) 7))
     = [JsonChat chat_A, JsonChat chat_B]
   \<and> lastUsed chat_A < lastUsed chat_B \<and> createdAt chat_A < createdAt chat_B"
  by (simp add: first_chat_json second_chat_json)
    (simp add: ChatManager_getChats_def json_manager_def getChatsJSON_def getUserData_def
       chat_A_def chat_B_def)

subsection \<open>A rating outside 1..5\<close>

text \<open>
  The structured store rejects a rating outside 1..5 through the \<open>CHECK\<close> constraint of
  the \<open>feedback\<close> table, and writes no row.
\<close>

lemma example_feedback_id: "new_feedback_id 50 ''f'' = ''feedback_50_f''"
  by (simp add: new_feedback_id_def dec.simps digit_char_def)

lemma saveFeedback_rejects:
  assumes "rating < 1 \<or> 5 < rating"
  shows "saveFeedback d uid cmt (Some rating) txt ty ctx now = (d, Inl ConstraintFailed)"
  using assms by (auto simp: saveFeedback_def feedback_checks_def)

lemma saveCommentRatingDB_rejects:
  assumes "rating < 1 \<or> 5 < rating"
  shows "snd (saveCommentRatingDB lm userId cmt rating ctx now) = Inl ConstraintFailed"
    and "feedback_rows (learning_db (fst (saveCommentRatingDB lm userId cmt rating ctx now)))
           = feedback_rows (learning_db lm)"
  using assms
  by (auto simp: saveCommentRatingDB_def case_prod_beta saveFeedback_rejects Let_def
        getUserOrCreate_def split: option.splits)

text \<open>
  Claim C5 at the flat-file store.  \<open>saveCommentRating\<close> with the rating 9 succeeds and
  the record with the rating 9 is in the user's feedback list afterwards; the same call
  against the structured store fails and writes nothing.
\<close>

theorem flat_file_accepts_rating_out_of_range:
  "snd (saveCommentRating (env_at 50 ''f'') json_learning 7 ''c1'' 9 ''{}'')
     = Inr (SavedObject feedback_9)
   \<and> feedbackCache (fst (saveCommentRating (env_at 50 ''f'') json_learning 7 ''c1'' 9 ''{}'')) 7
     = Some [feedback_9]
   \<and> snd (saveCommentRating (env_at 50 ''f'') db_learning 7 ''c1'' 9 ''{}'')
     = Inl ConstraintFailed
   \<and> feedback_rows (learning_db
        (fst (saveCommentRating (env_at 50 ''f'') db_learning 7 ''c1'' 9 ''{}''))) = []"
  by (simp add: saveCommentRating_def json_learning_def db_learning_def env_at_def
        saveCommentRatingJSON_def push_feedback_def example_feedback_id feedback_9_def
        saveCommentRatingDB_def saveFeedback_def feedback_checks_def getUserOrCreate_def
        empty_db_def Let_def)

subsection \<open>Renaming and deleting while the database is in use\<close>

lemma db_mode_first_chat:
  "ChatManager_createChat small_config (env_at 10 ''a'') db_manager 7 [0x41]
     = (db_manager\<lparr>userSettings := settings_7, db := db_with_A\<rparr>, Inr (DbChat row_A))"
  by (simp add: ChatManager_createChat_def lift_db_def env_at_def first_chat_db)
    (simp add: db_manager_def)

text \<open>
  Claim C2, where the database is the backend in use.  The user's chat A is created in the
  \<open>chats\<close> table and listed with the id 1.  Renaming or deleting the chat with that id
  fails with "chat not found", and the table still holds the row with its old name.
\<close>

theorem rename_and_delete_ignore_database:
  "snd (ChatManager_createChat small_config (env_at 10 ''a'') db_manager 7 [0x41])
     = Inr (DbChat row_A)
   \<and> snd (ChatManager_getChats
            (fst (ChatManager_createChat small_config (env_at 10 ''a'') db_manager 7 [0x41])) 7)
     = ([DbChat row_A], Some (DbId 1))
   \<and> snd (ChatManager_renameChat small_config
            (fst (ChatManager_createChat small_config (env_at 10 ''a'') db_manager 7 [0x41]))
            7 (DbId 1) [0x42])
     = Inl ChatNotFound
   \<and> chat_rows (db (fst (ChatManager_renameChat small_config
            (fst (ChatManager_createChat small_config (env_at 10 ''a'') db_manager 7 [0x41]))
            7 (DbId 1) [0x42])))
     = [row_A]
   \<and> snd (ChatManager_deleteChat
            (fst (ChatManager_createChat small_config (env_at 10 ''a'') db_manager 7 [0x41]))
            7 (DbId 1))
     = Inl ChatNotFound
   \<and> chat_rows (db (fst (ChatManager_deleteChat
            (fst (ChatManager_createChat small_config (env_at 10 ''a'') db_manager 7 [0x41]))
            7 (DbId 1))))
     = [row_A]"
  by (simp add: db_mode_first_chat)
    (simp add: ChatManager_getChats_def getChatsDB_def getUserOrCreate_def getUserChats_def
       order_by_updated_desc_def db_getActiveChat_def ChatManager_renameChat_def
       ChatManager_deleteChat_def lift_json_def db_manager_def db_with_A_def row_A_def Let_def)

subsection \<open>The retry loop of \<open>generateComments\<close>\<close>

lemma attempt_loop_invalid:
  "validateText text None = Inl v \<Longrightarrow> attempt \<le> retries
     \<Longrightarrow> attempt_loop retries text outcome attempt tr = (Rejected v, tr)"
  by (subst attempt_loop.simps) simp

lemma attempt_loop_done:
  "retries < attempt \<Longrightarrow> attempt_loop retries text outcome attempt tr = (Undefined, tr)"
  by (subst attempt_loop.simps) simp

lemma attempt_loop_success:
  "validateText text None = Inr t \<Longrightarrow> attempt \<le> retries \<Longrightarrow> outcome attempt = Inr resp
     \<Longrightarrow> attempt_loop retries text outcome attempt tr = (Generated resp, tr @ [Post attempt])"
  by (subst attempt_loop.simps) simp

lemma attempt_loop_last:
  "validateText text None = Inr t \<Longrightarrow> outcome retries = Inl err
     \<Longrightarrow> attempt_loop retries text outcome retries tr
           = (Failed (handleApiError err), tr @ [Post retries])"
  by (subst attempt_loop.simps) simp

lemma attempt_loop_retry:
  "validateText text None = Inr t \<Longrightarrow> attempt < retries \<Longrightarrow> outcome attempt = Inl err
     \<Longrightarrow> attempt_loop retries text outcome attempt tr
           = attempt_loop retries text outcome (attempt + 1)
               (tr @ [Post attempt, Sleep (2000 * attempt)])"
  by (subst attempt_loop.simps) simp

lemma attempt_loop_skip:
  assumes v: "validateText text None = Inr t"
  shows "a + int n \<le> retries \<Longrightarrow> (\<forall>i. a \<le> i \<and> i < a + int n \<longrightarrow> isl (outcome i))
     \<Longrightarrow> attempt_loop retries text outcome a tr
           = attempt_loop retries text outcome (a + int n) (tr @ failed_attempts a n)"
proof (induction n arbitrary: a tr)
  case 0
  then show ?case by simp
next
  case (Suc n)
  have e: "a + int (Suc n) = a + 1 + int n" by simp
  from Suc.prems(2) have "isl (outcome a)" by simp
  then obtain err where err: "outcome a = Inl err" by (cases "outcome a") auto
  from Suc.prems(1) have lt: "a < retries" by simp
  have step: "attempt_loop retries text outcome a tr
      = attempt_loop retries text outcome (a + 1) (tr @ [Post a, Sleep (2000 * a)])"
    by (rule attempt_loop_retry [where outcome = outcome and attempt = a, OF v lt err])
  have "attempt_loop retries text outcome (a + 1) (tr @ [Post a, Sleep (2000 * a)])
      = attempt_loop retries text outcome (a + 1 + int n)
          ((tr @ [Post a, Sleep (2000 * a)]) @ failed_attempts (a + 1) n)"
  proof (rule Suc.IH)
    show "a + 1 + int n \<le> retries" using Suc.prems(1) unfolding e .
    show "\<forall>i. a + 1 \<le> i \<and> i < a + 1 + int n \<longrightarrow> isl (outcome i)"
      using Suc.prems(2) unfolding e by simp
  qed
  with step show ?case unfolding e by simp
qed

lemma failed_attempts_trace:
  "failed_attempts a n = concat (map (\<lambda>i. [Post (a + int i), Sleep (2000 * (a + int i))]) [0..<n])"
proof (induction n arbitrary: a)
  case 0
  show ?case by simp
next
  case (Suc n)
  have "map (\<lambda>i. [Post (a + int i), Sleep (2000 * (a + int i))]) [0..<Suc n]
        = [Post a, Sleep (2000 * a)]
          # map (\<lambda>i. [Post (a + 1 + int i), Sleep (2000 * (a + 1 + int i))]) [0..<n]"
    by (simp only: upt_conv_Cons [of 0 "Suc n"] map_Suc_upt [symmetric] list.map)
       (simp add: add.assoc add.commute o_def)
  with Suc.IH [of "a + 1"] show ?case by simp
qed

lemma retry_trace_alt: "0 < k \<Longrightarrow> retry_trace k = failed_attempts 1 (k - 1) @ [Post (int k)]"
proof -
  assume k: "0 < k"
  have "map (\<lambda>i. [Post (int i), Sleep (2000 * int i)]) [1..<k]
        = map (\<lambda>i. [Post (1 + int i), Sleep (2000 * (1 + int i))]) [0..<k - 1]"
  proof -
    have "[1..<k] = map Suc [0..<k - 1]" using k by (simp add: map_Suc_upt)
    then show ?thesis by (simp add: o_def)
  qed
  then show ?thesis by (simp add: retry_trace_def failed_attempts_trace)
qed

lemma generate_result:
  assumes v: "validateText text None = Inr t"
      and k: "1 \<le> k" "int k \<le> retries"
      and before: "\<forall>i. 1 \<le> i \<and> i < int k \<longrightarrow> isl (outcome i)"
      and stop: "int k = retries \<or> \<not> isl (outcome (int k))"
  shows "attempt_loop retries text outcome 1 []
           = (case outcome (int k) of
                Inr resp \<Rightarrow> Generated resp
              | Inl err \<Rightarrow> Failed (handleApiError err),
              retry_trace k)"
proof -
  have a: "1 + int (k - 1) = int k" using k by simp
  have skip': "attempt_loop retries text outcome 1 []
      = attempt_loop retries text outcome (1 + int (k - 1)) ([] @ failed_attempts 1 (k - 1))"
  proof (rule attempt_loop_skip [OF v])
    show "1 + int (k - 1) \<le> retries" using k a by simp
    show "\<forall>i. 1 \<le> i \<and> i < 1 + int (k - 1) \<longrightarrow> isl (outcome i)"
      using before a by simp
  qed
  have skip: "attempt_loop retries text outcome 1 []
      = attempt_loop retries text outcome (int k) (failed_attempts 1 (k - 1))"
    using skip' by (simp only: a append_Nil)
  have tr: "retry_trace k = failed_attempts 1 (k - 1) @ [Post (int k)]"
    using k by (simp add: retry_trace_alt)
  show ?thesis
  proof (cases "outcome (int k)")
    case (Inr resp)
    from attempt_loop_success [where outcome = outcome and attempt = "int k", OF v k(2) Inr]
    show ?thesis by (simp only: skip tr Inr sum.case)
  next
    case (Inl err)
    with stop have "int k = retries" by auto
    with attempt_loop_last [where outcome = outcome and retries = retries, OF v] Inl
    show ?thesis by (simp only: skip tr sum.case)
  qed
qed


lemma posts_failed_attempts: "length (filter is_post (failed_attempts a n)) = n"
  by (induction n arbitrary: a) (simp_all add: is_post_def)

lemma posts_retry_trace: "0 < k \<Longrightarrow> length (filter is_post (retry_trace k)) = k"
  by (simp add: retry_trace_alt posts_failed_attempts is_post_def)

lemma first_stop:
  assumes "1 \<le> retries"
  shows "\<exists>k. 1 \<le> k \<and> int k \<le> retries
            \<and> (\<forall>i. 1 \<le> i \<and> i < int k \<longrightarrow> isl (outcome i))
            \<and> (int k = retries \<or> \<not> isl (outcome (int k)))"
proof (cases "\<exists>j. 1 \<le> j \<and> int j \<le> retries \<and> \<not> isl (outcome (int j))")
  case True
  define P where "P j \<longleftrightarrow> 1 \<le> j \<and> int j \<le> retries \<and> \<not> isl (outcome (int j))" for j
  from True have ex: "\<exists>j. P j" by (simp add: P_def)
  define k where "k = (LEAST j. P j)"
  have Pk: "P k" unfolding k_def using ex by (rule LeastI_ex)
  have least: "\<And>j. P j \<Longrightarrow> k \<le> j" unfolding k_def by (rule Least_le)
  have before: "\<forall>i. 1 \<le> i \<and> i < int k \<longrightarrow> isl (outcome i)"
  proof (intro allI impI)
    fix i :: int
    assume i: "1 \<le> i \<and> i < int k"
    show "isl (outcome i)"
    proof (rule ccontr)
      assume n: "\<not> isl (outcome i)"
      have "1 \<le> nat i" using i by linarith
      moreover have ii: "int (nat i) = i" using i by simp
      moreover have "i \<le> retries" using i Pk unfolding P_def by linarith
      ultimately have "P (nat i)" using n by (simp add: P_def)
      from least [OF this] i ii show False by linarith
    qed
  qed
  from Pk before show ?thesis unfolding P_def by blast
next
  case False
  have "\<forall>i. 1 \<le> i \<and> i < int (nat retries) \<longrightarrow> isl (outcome i)"
  proof (intro allI impI)
    fix i :: int
    assume i: "1 \<le> i \<and> i < int (nat retries)"
    show "isl (outcome i)"
    proof (rule ccontr)
      assume "\<not> isl (outcome i)"
      moreover have "1 \<le> nat i" using i by linarith
      moreover have "int (nat i) = i" using i by simp
      moreover have "i \<le> retries" using i by linarith
      ultimately have "1 \<le> nat i \<and> int (nat i) \<le> retries \<and> \<not> isl (outcome (int (nat i)))"
        by simp
      with False show False by blast
    qed
  qed
  with assms show ?thesis by (intro exI [of _ "nat retries"]) simp
qed

lemma attempts_bounded:
  "length (filter is_post (snd (attempt_loop retries text outcome 1 []))) \<le> nat retries"
proof (cases "1 \<le> retries")
  case False
  then show ?thesis by (simp add: attempt_loop_done)
next
  case True
  show ?thesis
  proof (cases "validateText text None")
    case (Inl v)
    from attempt_loop_invalid [OF Inl True] show ?thesis by simp
  next
    case (Inr t)
    from first_stop [OF True, of outcome] obtain k where
      k: "1 \<le> k" "int k \<le> retries" "\<forall>i. 1 \<le> i \<and> i < int k \<longrightarrow> isl (outcome i)"
         "int k = retries \<or> \<not> isl (outcome (int k))"
      by blast
    from generate_result [OF Inr k] k(1,2) show ?thesis
      by (simp add: posts_retry_trace)
  qed
qed

text \<open>
  Claim C9.  With \<open>N = maxRetries || config.qwen.maxRetries\<close>, \<open>generateComments\<close> posts
  the request at most \<open>N\<close> times.  For a valid text and \<open>N \<ge> 1\<close> there is an attempt \<open>k\<close>
  between 1 and \<open>N\<close>, the first one that succeeds or else the last one, such that the
  attempts before \<open>k\<close> all failed, each failed attempt \<open>i < k\<close> was followed by a wait of
  \<open>2000 * i\<close> milliseconds and by the next attempt (the trace is \<open>retry_trace k\<close>), and the
  result is the answer of attempt \<open>k\<close> or the error of attempt \<open>k\<close> as turned into a
  failure by \<open>handleApiError\<close>.  A failure is returned only when all \<open>N\<close> attempts failed,
  and it is the failure of attempt \<open>N\<close>.
\<close>

theorem generateComments_retry:
  "length (filter is_post (snd (generateComments cfg text maxRetries outcome)))
     \<le> nat (effective_retries cfg maxRetries)
   \<and> (validateText text None = Inr t \<longrightarrow> 1 \<le> effective_retries cfg maxRetries \<longrightarrow>
        (\<exists>k. 1 \<le> k \<and> int k \<le> effective_retries cfg maxRetries
           \<and> (\<forall>i. 1 \<le> i \<and> i < int k \<longrightarrow> isl (outcome i))
           \<and> (int k = effective_retries cfg maxRetries \<or> \<not> isl (outcome (int k)))
           \<and> generateComments cfg text maxRetries outcome
               = (case outcome (int k) of
                    Inr resp \<Rightarrow> Generated resp
                  | Inl err \<Rightarrow> Failed (handleApiError err),
                  retry_trace k)))
   \<and> (validateText text None = Inr t \<longrightarrow>
        fst (generateComments cfg text maxRetries outcome) = Failed f \<longrightarrow>
        (\<forall>i. 1 \<le> i \<and> i \<le> effective_retries cfg maxRetries \<longrightarrow> isl (outcome i))
        \<and> (\<exists>err. outcome (effective_retries cfg maxRetries) = Inl err \<and> f = handleApiError err))"
proof -
  let ?N = "effective_retries cfg maxRetries"
  have A: "length (filter is_post (snd (generateComments cfg text maxRetries outcome))) \<le> nat ?N"
    unfolding generateComments_def by (rule attempts_bounded)
  have B: "\<exists>k. 1 \<le> k \<and> int k \<le> ?N
           \<and> (\<forall>i. 1 \<le> i \<and> i < int k \<longrightarrow> isl (outcome i))
           \<and> (int k = ?N \<or> \<not> isl (outcome (int k)))
           \<and> generateComments cfg text maxRetries outcome
               = (case outcome (int k) of
                    Inr resp \<Rightarrow> Generated resp
                  | Inl err \<Rightarrow> Failed (handleApiError err),
                  retry_trace k)"
    if v: "validateText text None = Inr t" and n: "1 \<le> ?N"
  proof -
    from first_stop [OF n, of outcome] obtain k where
      k: "1 \<le> k" "int k \<le> ?N" "\<forall>i. 1 \<le> i \<and> i < int k \<longrightarrow> isl (outcome i)"
         "int k = ?N \<or> \<not> isl (outcome (int k))"
      by blast
    from generate_result [OF v k] k show ?thesis
      unfolding generateComments_def by blast
  qed
  have C: "(\<forall>i. 1 \<le> i \<and> i \<le> ?N \<longrightarrow> isl (outcome i))
        \<and> (\<exists>err. outcome ?N = Inl err \<and> f = handleApiError err)"
    if v: "validateText text None = Inr t"
      and f: "fst (generateComments cfg text maxRetries outcome) = Failed f"
  proof -
    have n: "1 \<le> ?N"
    proof (rule ccontr)
      assume "\<not> 1 \<le> ?N"
      then have "attempt_loop ?N text outcome 1 [] = (Undefined, [])"
        by (simp add: attempt_loop_done)
      with f show False by (simp add: generateComments_def)
    qed
    from first_stop [OF n, of outcome] obtain k where
      k: "1 \<le> k" "int k \<le> ?N" "\<forall>i. 1 \<le> i \<and> i < int k \<longrightarrow> isl (outcome i)"
         "int k = ?N \<or> \<not> isl (outcome (int k))"
      by blast
    from generate_result [OF v k] f
    have r: "(case outcome (int k) of Inr resp \<Rightarrow> Generated resp
              | Inl err \<Rightarrow> Failed (handleApiError err)) = Failed f"
      by (simp add: generateComments_def)
    then obtain err where err: "outcome (int k) = Inl err" "f = handleApiError err"
      by (cases "outcome (int k)") auto
    with k(4) have kN: "int k = ?N" by auto
    have all: "\<forall>i. 1 \<le> i \<and> i \<le> ?N \<longrightarrow> isl (outcome i)"
    proof (intro allI impI)
      fix i :: int
      assume i: "1 \<le> i \<and> i \<le> ?N"
      show "isl (outcome i)"
      proof (cases "i < int k")
        case True
        with i k(3) show ?thesis by blast
      next
        case False
        with i kN have "i = int k" by simp
        with err show ?thesis by simp
      qed
    qed
    from err kN have "\<exists>err. outcome ?N = Inl err \<and> f = handleApiError err" by auto
    with all show ?thesis by blast
  qed
  from A B C show ?thesis by blast
qed

lemma valid_hi: "validateText [0x68, 0x69] None = Inr [0x68, 0x69]"
  by (simp add: validateText_def trim_def js_space_def)

lemma default_retries: "effective_retries default_config None = 3"
  by (simp add: effective_retries_def default_config_def)

lemma retry_trace_3: "retry_trace 3 = [Post 1, Sleep 2000, Post 2, Sleep 4000, Post 3]"
  by (simp add: retry_trace_def upt_conv_Cons)

lemma retry_trace_2: "retry_trace 2 = [Post 1, Sleep 2000, Post 2]"
  by (simp add: retry_trace_def upt_conv_Cons)

lemma all_down:
  "generateComments default_config [0x68, 0x69] None always_down
     = (Failed \<lparr>code = NETWORK_ERROR, detail = None\<rparr>, [Post 1, Sleep 2000, Post 2, Sleep 4000, Post 3])"
  using generate_result [OF valid_hi, of 3 3 always_down]
  by (simp add: generateComments_def default_retries retry_trace_3 always_down_def)

lemma second_up:
  "generateComments default_config [0x68, 0x69] None up_on_second
     = (Generated ''ok'', [Post 1, Sleep 2000, Post 2])"
  using generate_result [OF valid_hi, of 2 3 up_on_second]
  by (simp add: generateComments_def default_retries retry_trace_2 up_on_second_def)


text \<open>
  Claim C9, at the default of three attempts: when the remote side is down for all three,
  the posts are separated by waits of 2000 and 4000 milliseconds and the failure of the
  third attempt is returned; when the second attempt is answered, the failure of the
  first is not returned.
\<close>

theorem generateComments_retry_witness:
  "validateText [0x68, 0x69] None = Inr [0x68, 0x69]
   \<and> effective_retries default_config None = 3
   \<and> generateComments default_config [0x68, 0x69] None always_down
       = (Failed \<lparr>code = NETWORK_ERROR, detail = None\<rparr>,
          [Post 1, Sleep 2000, Post 2, Sleep 4000, Post 3])
   \<and> generateComments default_config [0x68, 0x69] None up_on_second
       = (Generated ''ok'', [Post 1, Sleep 2000, Post 2])
   \<and> length (filter is_post (snd (generateComments default_config [0x68, 0x69] None always_down)))
       \<le> nat 3
   \<and> (\<exists>err. always_down 3 = Inl err
          \<and> \<lparr>code = NETWORK_ERROR, detail = None\<rparr> = handleApiError err)
   \<and> (\<exists>k. 1 \<le> k \<and> int k \<le> 3
          \<and> (\<forall>i. 1 \<le> i \<and> i < int k \<longrightarrow> isl (up_on_second i))
          \<and> (int k = 3 \<or> \<not> isl (up_on_second (int k)))
          \<and> generateComments default_config [0x68, 0x69] None up_on_second
              = (case up_on_second (int k) of Inr resp \<Rightarrow> Generated resp
                 | Inl err \<Rightarrow> Failed (handleApiError err), retry_trace k))"
proof -
  have f: "fst (generateComments default_config [0x68, 0x69] None always_down)
             = Failed \<lparr>code = NETWORK_ERROR, detail = None\<rparr>"
    by (simp add: all_down)
  have n: "1 \<le> effective_retries default_config None" by (simp add: default_retries)
  note down = generateComments_retry [of default_config "[0x68, 0x69]" None always_down
      "[0x68, 0x69]" "\<lparr>code = NETWORK_ERROR, detail = None\<rparr>"]
  note up = generateComments_retry [of default_config "[0x68, 0x69]" None up_on_second
      "[0x68, 0x69]" "\<lparr>code = NETWORK_ERROR, detail = None\<rparr>"]
  have b: "length (filter is_post (snd (generateComments default_config [0x68, 0x69] None always_down)))
             \<le> nat 3"
    using down [THEN conjunct1] unfolding default_retries .
  have c: "\<exists>err. always_down 3 = Inl err
             \<and> \<lparr>code = NETWORK_ERROR, detail = None\<rparr> = handleApiError err"
    using down [THEN conjunct2, THEN conjunct2, rule_format, OF valid_hi f, THEN conjunct2]
    unfolding default_retries .
  have e: "\<exists>k. 1 \<le> k \<and> int k \<le> 3
          \<and> (\<forall>i. 1 \<le> i \<and> i < int k \<longrightarrow> isl (up_on_second i))
          \<and> (int k = 3 \<or> \<not> isl (up_on_second (int k)))
          \<and> generateComments default_config [0x68, 0x69] None up_on_second
              = (case up_on_second (int k) of Inr resp \<Rightarrow> Generated resp
                 | Inl err \<Rightarrow> Failed (handleApiError err), retry_trace k)"
    using up [THEN conjunct2, THEN conjunct1, rule_format, OF valid_hi n]
    unfolding default_retries .
  show ?thesis
    by (intro conjI) (rule valid_hi, rule default_retries, rule all_down, rule second_up,
        rule b, rule c, rule e)
qed

subsection \<open>Feedback statistics\<close>








































lemma one_feedback: "user_feedback [7 \<mapsto> [feedback_3]] 7 = [feedback_3]"
  by (simp add: user_feedback_def)



end
